theory Spec2Isabelle
  imports Main
begin

section \<open>JavaScript values\<close>

text \<open>
  The value \<open>response.json()\<close> resolves to.  Numbers are restricted to integers: the code
  only ever tests a number for truthiness.  An object is the list of its own properties in
  the order \<open>Object.keys\<close> reports them, with distinct keys.  \<open>undefined\<close> is the \<open>None\<close>
  of \<open>json option\<close>.
\<close>

datatype json =
    JNull
  | JBool bool
  | JNum int
  | JStr string
  | JArr "json list"
  | JObj "(string \<times> json) list"

text \<open>A thrown value: an \<open>Error\<close> object with its \<open>name\<close> and \<open>message\<close>.\<close>

record js_error =
  err_name :: string
  err_message :: string

definition Error :: "string \<Rightarrow> js_error" where
  "Error msg = \<lparr>err_name = ''Error'', err_message = msg\<rparr>"

text \<open>Reading a property of \<open>null\<close> throws (the message is V8's wording).\<close>

definition TypeError_null :: "string \<Rightarrow> js_error" where
  "TypeError_null k =
     \<lparr>err_name = ''TypeError'',
      err_message = ''Cannot read properties of null (reading '' @ [CHR 0x27] @ k @ [CHR 0x27] @ '')''\<rparr>"

text \<open>\<open>String(err)\<close>, that is \<open>Error.prototype.toString\<close>.\<close>

definition String_err :: "js_error \<Rightarrow> string" where
  "String_err e =
     (if err_name e = [] then err_message e
      else if err_message e = [] then err_name e
      else err_name e @ '': '' @ err_message e)"

fun truthy :: "json \<Rightarrow> bool" where
  "truthy JNull = False"
| "truthy (JBool b) = b"
| "truthy (JNum n) = (n \<noteq> 0)"
| "truthy (JStr s) = (s \<noteq> [])"
| "truthy (JArr xs) = True"
| "truthy (JObj kvs) = True"

text \<open>
  \<open>v.k\<close> for a value \<open>v\<close> that is not \<open>null\<close> and one of the property names the code reads
  (\<open>id\<close>, \<open>data\<close>, \<open>documents\<close>, ...): none of them is an index, \<open>length\<close> or a prototype
  property, so only an object can have it.
\<close>

fun get_prop :: "string \<Rightarrow> json \<Rightarrow> json option" where
  "get_prop k (JObj kvs) = map_of kvs k"
| "get_prop k v = None"

text \<open>\<open>v.k\<close> for any decoded value: \<open>null.k\<close> throws.\<close>

definition read_prop :: "string \<Rightarrow> json \<Rightarrow> js_error + json option" where
  "read_prop k v = (if v = JNull then Inl (TypeError_null k) else Inr (get_prop k v))"

text \<open>The value of \<open>v.k\<close> when it is truthy.\<close>

definition truthy_prop :: "string \<Rightarrow> json \<Rightarrow> json option" where
  "truthy_prop k v =
     (case get_prop k v of Some x \<Rightarrow> (if truthy x then Some x else None) | None \<Rightarrow> None)"

text \<open>\<open>a || b\<close> where \<open>a\<close> is a property that may be missing.\<close>

definition or_else :: "json option \<Rightarrow> json \<Rightarrow> json" where
  "or_else a b = (case a of Some x \<Rightarrow> (if truthy x then x else b) | None \<Rightarrow> b)"

text \<open>\<open>typeof v === 'object'\<close> for a truthy \<open>v\<close>, and \<open>Array.isArray\<close>.\<close>

fun is_object :: "json \<Rightarrow> bool" where
  "is_object (JArr xs) = True"
| "is_object (JObj kvs) = True"
| "is_object v = False"

fun isArray :: "json \<Rightarrow> bool" where
  "isArray (JArr xs) = True"
| "isArray v = False"

fun isArray_opt :: "json option \<Rightarrow> bool" where
  "isArray_opt (Some v) = isArray v"
| "isArray_opt None = False"

text \<open>\<open>obj.k = v\<close> on an object: an existing property keeps its place, a new one goes last.\<close>

fun set_prop :: "string \<Rightarrow> json \<Rightarrow> (string \<times> json) list \<Rightarrow> (string \<times> json) list" where
  "set_prop k v [] = [(k, v)]"
| "set_prop k v (p # ps) = (if fst p = k then (k, v) # ps else p # set_prop k v ps)"

subsection \<open>Strings\<close>

text \<open>Strings are lists of characters; the text handled is taken to be ASCII.\<close>

definition digit_char :: "nat \<Rightarrow> char" where
  "digit_char d = char_of (48 + d)"

function show_nat :: "nat \<Rightarrow> string" where
  "show_nat n = (if n < 10 then [digit_char n] else show_nat (n div 10) @ [digit_char (n mod 10)])"
  by pat_completeness auto
termination
  by (relation "measure id") auto

declare show_nat.simps [simp del]

definition is_ws :: "char \<Rightarrow> bool" where
  "is_ws c = (c \<in> set [CHR 0x09, CHR 0x0A, CHR 0x0B, CHR 0x0C, CHR 0x0D, CHR 0x20])"

text \<open>\<open>String.prototype.trim\<close>.\<close>

definition trim :: "string \<Rightarrow> string" where
  "trim s = rev (dropWhile is_ws (rev (dropWhile is_ws s)))"

section \<open>The transport\<close>

datatype body =
    NoBody
  | JsonBody json
  | FormData "(string \<times> string) list"

text \<open>
  A request: the query parameters are kept before \<open>encodeURIComponent\<close>, the body before
  \<open>JSON.stringify\<close>.
\<close>

record request =
  req_method :: string
  req_url :: string
  req_query :: "(string \<times> string) list"
  req_body :: body

text \<open>
  What one \<open>reader.read()\<close> of a response body settles to; a chunk is given as the text
  \<open>decoder.decode(value, {stream: true})\<close> makes of it.
\<close>

datatype read_result =
    Chunk string
  | Done
  | Failed js_error

text \<open>
  A response: its status, what \<open>text()\<close> and \<open>json()\<close> resolve to, and the reads its body
  reader yields so far (\<open>None\<close>: the response has no body).
\<close>

record response =
  res_status :: nat
  res_text :: string
  res_json :: "js_error + json"
  res_body :: "read_result list option"

definition res_ok :: "response \<Rightarrow> bool" where
  "res_ok r = (200 \<le> res_status r \<and> res_status r \<le> 299)"

datatype fetch_result =
    Rejected js_error
  | Resolved response

definition API_BASE_URL :: string where
  "API_BASE_URL = ''http://localhost:8000''"

definition GET :: "string \<Rightarrow> (string \<times> string) list \<Rightarrow> request" where
  "GET path q = \<lparr>req_method = ''GET'', req_url = API_BASE_URL @ path, req_query = q, req_body = NoBody\<rparr>"

definition POST :: "string \<Rightarrow> body \<Rightarrow> request" where
  "POST path b = \<lparr>req_method = ''POST'', req_url = API_BASE_URL @ path, req_query = [], req_body = b\<rparr>"

text \<open>
  The three lines every operation of \<open>api.ts\<close> starts with: \<open>fetch\<close>, throw \<open>fail response\<close>
  unless \<open>response.ok\<close>, then \<open>await response.json()\<close>.
\<close>

definition fetch_json :: "(request \<Rightarrow> fetch_result) \<Rightarrow> request \<Rightarrow> (response \<Rightarrow> js_error) \<Rightarrow> js_error + json" where
  "fetch_json fetch rq fail =
     (case fetch rq of
        Rejected e \<Rightarrow> Inl e
      | Resolved r \<Rightarrow> (if \<not> res_ok r then Inl (fail r) else res_json r))"

section \<open>The resource clients (\<open>lib/api.ts\<close>)\<close>

text \<open>
  Every operation returns the requests it issued together with its outcome: \<open>Inl\<close> the
  thrown error, \<open>Inr\<close> the value the promise resolves to.
\<close>

definition documentsApi_getAll :: "(request \<Rightarrow> fetch_result) \<Rightarrow> request list \<times> (js_error + json)" where
  "documentsApi_getAll fetch =
     (let rq = GET ''/documents'' [] in
      ([rq],
       case fetch_json fetch rq
              (\<lambda>r. Error (''Failed to fetch documents: '' @ show_nat (res_status r) @ '' '' @ res_text r)) of
         Inl e \<Rightarrow> Inl e
       | Inr result \<Rightarrow>
           (case read_prop ''documents'' result of
              Inl e \<Rightarrow> Inl e
            | Inr documents \<Rightarrow>
                if isArray_opt documents then Inr (the documents)
                else if isArray result then Inr result
                else Inr (JArr []))))"

definition documentsApi_upload :: "(request \<Rightarrow> fetch_result) \<Rightarrow> string \<Rightarrow> request list \<times> (js_error + json)" where
  "documentsApi_upload fetch file =
     (let rq = POST ''/ingest/auto'' (FormData [(''file'', file)]) in
      ([rq],
       case fetch_json fetch rq (\<lambda>r. Error ''Failed to upload document'') of
         Inl e \<Rightarrow> Inl e
       | Inr result \<Rightarrow>
           (case read_prop ''document'' result of
              Inl e \<Rightarrow> Inl e
            | Inr document \<Rightarrow> Inr (or_else document result))))"

definition documentsApi_delete :: "(request \<Rightarrow> fetch_result) \<Rightarrow> string \<Rightarrow> request list \<times> (js_error + unit)" where
  "documentsApi_delete fetch ident =
     (let rq = \<lparr>req_method = ''DELETE'', req_url = API_BASE_URL @ ''/documents/'' @ ident,
                req_query = [], req_body = NoBody\<rparr> in
      ([rq],
       case fetch rq of
         Rejected e \<Rightarrow> Inl e
       | Resolved r \<Rightarrow> (if \<not> res_ok r then Inl (Error ''Failed to delete document'') else Inr ())))"

text \<open>The result is \<open>{query: result.query, sources: result.sources || []}\<close>, as a pair.\<close>

definition queriesApi_create :: "(request \<Rightarrow> fetch_result) \<Rightarrow> string \<Rightarrow> request list \<times> (js_error + json option \<times> json)" where
  "queriesApi_create fetch queryText =
     (let rq = GET ''/query'' [(''q'', queryText)] in
      ([rq],
       case fetch_json fetch rq (\<lambda>r. Error ''Failed to create query'') of
         Inl e \<Rightarrow> Inl e
       | Inr result \<Rightarrow>
           (case read_prop ''query'' result of
              Inl e \<Rightarrow> Inl e
            | Inr query \<Rightarrow> Inr (query, or_else (get_prop ''sources'' result) (JArr [])))))"

text \<open>The local function \<open>tryGetId\<close> of \<open>conversationsApi.create\<close>; \<open>None\<close> is its \<open>null\<close>.\<close>

function tryGetId :: "json \<Rightarrow> json option"
  and search_props :: "(string \<times> json) list \<Rightarrow> json option" where
  "tryGetId obj =
     (if \<not> truthy obj then None
      else case obj of JStr s \<Rightarrow> Some obj | _ \<Rightarrow>
       (case truthy_prop ''id'' obj of Some v \<Rightarrow> Some v | None \<Rightarrow>
       (case truthy_prop ''conversation_id'' obj of Some v \<Rightarrow> Some v | None \<Rightarrow>
       (case truthy_prop ''data'' obj of Some d \<Rightarrow> tryGetId d | None \<Rightarrow>
       (case obj of
          JArr xs \<Rightarrow> (case xs of [] \<Rightarrow> None | x # _ \<Rightarrow> tryGetId x)
        | JObj kvs \<Rightarrow> search_props kvs
        | _ \<Rightarrow> None)))))"
| "search_props [] = None"
| "search_props ((k, v) # kvs) =
     (if truthy v \<and> is_object v
      then (case tryGetId v of Some nested \<Rightarrow> Some nested | None \<Rightarrow> search_props kvs)
      else search_props kvs)"
  by pat_completeness auto
termination
proof -
  have map_of_size: "size v < Suc (size_list (size_prod (\<lambda>_. 0) size) kvs)"
    if "map_of kvs k = Some v" for kvs :: "(string \<times> json) list" and k v
    using that by (induction kvs) (auto split: if_splits)
  have truthy_prop_size: "size d < size obj" if "truthy_prop k obj = Some d" for k obj d
    using that
    by (cases obj) (auto simp: truthy_prop_def split: option.splits if_splits dest: map_of_size)
  show ?thesis
    by (relation "measure (case_sum (\<lambda>obj. 2 * size obj)
                    (\<lambda>kvs. 2 * size_list (size_prod (\<lambda>_. 0) size) kvs + 1))")
       (auto dest: truthy_prop_size)
qed

declare tryGetId.simps [simp del]

text \<open>
  The normalisation of \<open>conversationsApi.create\<close>, one definition per statement of the
  source.  \<open>unwrap_data\<close>: a wrapper with a truthy \<open>data\<close> is replaced by it.
\<close>

definition unwrap_data :: "json \<Rightarrow> json" where
  "unwrap_data conv =
     (if truthy conv then (case truthy_prop ''data'' conv of Some d \<Rightarrow> d | None \<Rightarrow> conv) else conv)"

text \<open>A non-empty array is replaced by its first entry.\<close>

fun first_entry :: "json \<Rightarrow> json" where
  "first_entry (JArr (x # xs)) = x"
| "first_entry conv = conv"

text \<open>
  An id found by \<open>tryGetId\<close> is stored in \<open>conv.id\<close> unless that is truthy already.  When
  \<open>conv\<close> is an array the source stores the id as a property of the array; the array is
  non-empty then (the search of an empty array finds nothing), so the second
  \<open>first_entry\<close> below replaces it and the stored property is never returned: the array is
  left as it is.
\<close>

definition fill_id :: "json \<Rightarrow> json" where
  "fill_id conv =
     (if truthy conv \<and> is_object conv
      then (case tryGetId conv of
              None \<Rightarrow> conv
            | Some ident \<Rightarrow>
                (case conv of
                   JObj kvs \<Rightarrow> (if truthy_prop ''id'' conv = None then JObj (set_prop ''id'' ident kvs) else conv)
                 | _ \<Rightarrow> conv))
      else conv)"

text \<open>A bare string becomes \<open>{id: conv, title: title || ''}\<close>.\<close>

definition title_or_empty :: "string option \<Rightarrow> string" where
  "title_or_empty title = (case title of Some t \<Rightarrow> t | None \<Rightarrow> [])"

fun promote_string :: "string option \<Rightarrow> json \<Rightarrow> json" where
  "promote_string title (JStr s) = JObj [(''id'', JStr s), (''title'', JStr (title_or_empty title))]"
| "promote_string title conv = conv"

text \<open>\<open>if (conv && !conv.id && conv.data) conv = conv.data\<close>.\<close>

definition unwrap_data_without_id :: "json \<Rightarrow> json" where
  "unwrap_data_without_id conv =
     (if truthy conv \<and> truthy_prop ''id'' conv = None
      then (case truthy_prop ''data'' conv of Some d \<Rightarrow> d | None \<Rightarrow> conv)
      else conv)"

definition normalize_conversation :: "string option \<Rightarrow> json \<Rightarrow> js_error + json" where
  "normalize_conversation title result =
     (case read_prop ''conversation'' result of
        Inl e \<Rightarrow> Inl e
      | Inr conversation \<Rightarrow>
          Inr (unwrap_data_without_id (first_entry (promote_string title
                 (fill_id (first_entry (unwrap_data (or_else conversation result))))))))"

text \<open>\<open>JSON.stringify({title})\<close> leaves an undefined title out.\<close>

definition title_body :: "string option \<Rightarrow> body" where
  "title_body title = JsonBody (JObj (case title of Some t \<Rightarrow> [(''title'', JStr t)] | None \<Rightarrow> []))"

definition conversationsApi_create :: "(request \<Rightarrow> fetch_result) \<Rightarrow> string option \<Rightarrow> request list \<times> (js_error + json)" where
  "conversationsApi_create fetch title =
     (let rq = POST ''/agents/conversations'' (title_body title) in
      ([rq],
       case fetch_json fetch rq (\<lambda>r. Error ''Failed to create conversation'') of
         Inl e \<Rightarrow> Inl e
       | Inr result \<Rightarrow> normalize_conversation title result))"

definition conversationsApi_getAll :: "(request \<Rightarrow> fetch_result) \<Rightarrow> request list \<times> (js_error + json)" where
  "conversationsApi_getAll fetch =
     (let rq = GET ''/agents/conversations'' [] in
      ([rq],
       case fetch_json fetch rq (\<lambda>r. Error ''Failed to fetch conversations'') of
         Inl e \<Rightarrow> Inl e
       | Inr result \<Rightarrow>
           (case read_prop ''conversations'' result of
              Inl e \<Rightarrow> Inl e
            | Inr conversations \<Rightarrow> Inr (or_else conversations result))))"

text \<open>
  The conversation identity of the message operations: \<open>None\<close> is \<open>undefined\<close> or \<open>null\<close>,
  and \<open>!conversationId\<close> also holds of the empty string.
\<close>

definition no_id :: "string option \<Rightarrow> bool" where
  "no_id conversationId = (case conversationId of None \<Rightarrow> True | Some c \<Rightarrow> c = [])"

definition messagesApi_getByConversation :: "(request \<Rightarrow> fetch_result) \<Rightarrow> string option \<Rightarrow> request list \<times> (js_error + json)" where
  "messagesApi_getByConversation fetch conversationId =
     (if no_id conversationId then ([], Inr (JArr []))
      else
        let rq = GET ''/agents/messages'' [(''conversation_id'', the conversationId)] in
        ([rq],
         case fetch_json fetch rq (\<lambda>r. Error ''Failed to fetch messages'') of
           Inl e \<Rightarrow> Inl e
         | Inr result \<Rightarrow>
             (case read_prop ''messages'' result of
                Inl e \<Rightarrow> Inl e
              | Inr msgs \<Rightarrow> Inr (or_else msgs result))))"

definition messagesApi_create :: "(request \<Rightarrow> fetch_result) \<Rightarrow> string option \<Rightarrow> string \<Rightarrow> string \<Rightarrow> request list \<times> (js_error + json)" where
  "messagesApi_create fetch conversationId role content =
     (if no_id conversationId then ([], Inl (Error ''conversationId is required''))
      else
        let rq = POST ''/agents/messages''
                   (JsonBody (JObj [(''conversation_id'', JStr (the conversationId)),
                                    (''role'', JStr role), (''content'', JStr content)])) in
        ([rq],
         case fetch_json fetch rq (\<lambda>r. Error ''Failed to create message'') of
           Inl e \<Rightarrow> Inl e
         | Inr result \<Rightarrow>
             (case read_prop ''message'' result of
                Inl e \<Rightarrow> Inl e
              | Inr msg \<Rightarrow> Inr (or_else msg result))))"

section \<open>Messages and stream events (\<open>lib/types.ts\<close>)\<close>

datatype role = User | Assistant

text \<open>
  A \<open>Message\<close>.  Its \<open>conversation_id\<close> holds whatever identity the page passes on, so it
  is a decoded value.
\<close>

record message =
  m_id :: string
  m_conversation_id :: json
  m_role :: role
  m_content :: string
  m_created_at :: string

text \<open>
  The structured result of a turn: the one field the page reads, and the other fields,
  which it passes on as they are.
\<close>

record analysis_result =
  ar_final_output :: "string option"
  ar_rest :: "(string \<times> json) list"

text \<open>
  A decoded frame, as the page's callbacks read it: the fields \<open>type\<close>, \<open>partial\<close>,
  \<open>assistant_message\<close>, \<open>result\<close>, \<open>workflow_result\<close>, \<open>final_output\<close>, \<open>conversation_id\<close>
  and \<open>error\<close>, each at the type section 3 of the specification gives it; \<open>None\<close> is a
  field that is missing or \<open>null\<close>.  A decoded value with none of these fields is the
  event with an empty type, which no callback acts on.
\<close>

record stream_event =
  ev_type :: string
  ev_partial :: string
  ev_assistant_message :: "message option"
  ev_result :: "analysis_result option"
  ev_workflow_result :: "analysis_result option"
  ev_final_output :: "string option"
  ev_conversation_id :: "string option"
  ev_error :: "string option"

text \<open>An event with the given type and no other field.\<close>

definition bare_event :: "string \<Rightarrow> stream_event" where
  "bare_event t =
     \<lparr>ev_type = t, ev_partial = [], ev_assistant_message = None, ev_result = None,
      ev_workflow_result = None, ev_final_output = None, ev_conversation_id = None,
      ev_error = None\<rparr>"

text \<open>The synthetic event \<open>{type: 'error', error: msg}\<close>.\<close>

definition error_event :: "string \<Rightarrow> stream_event" where
  "error_event msg = (bare_event ''error'')\<lparr>ev_error := Some msg\<rparr>"

text \<open>Truthiness of an optional string: missing and empty are both falsy.\<close>

definition truthy_str :: "string option \<Rightarrow> bool" where
  "truthy_str s = (case s of None \<Rightarrow> False | Some t \<Rightarrow> t \<noteq> [])"

section \<open>The streaming consumer (\<open>messagesApi.generateAgentResponseStream\<close>)\<close>

text \<open>
  \<open>buffer.split('\n\n')\<close>: the pieces between the occurrences of two line feeds, found
  from the left; there is always at least one piece.
\<close>

fun split_nn :: "string \<Rightarrow> string list" where
  "split_nn (c # d # r) =
     (if c = CHR 0x0A \<and> d = CHR 0x0A then [] # split_nn r
      else (case split_nn (d # r) of p # ps \<Rightarrow> (c # p) # ps | [] \<Rightarrow> [[c]]))"
| "split_nn s = [s]"

text \<open>
  One part of the buffer: a blank part is skipped, the marker \<open>data: \<close> is cut off, and
  the rest goes through \<open>JSON.parse\<close>, which is a parameter (\<open>None\<close>: it throws and the
  frame is dropped).  The result is the event handed to \<open>onEvent\<close>, if any.
\<close>

definition decode_part :: "(string \<Rightarrow> stream_event option) \<Rightarrow> string \<Rightarrow> stream_event option" where
  "decode_part JSON_parse part =
     (if trim part = [] then None
      else JSON_parse (if take 6 part = ''data: '' then drop 6 part else part))"

text \<open>The \<open>catch\<close> of the consumer: \<open>{type: 'error', error: err.message || String(err)}\<close>.\<close>

definition catch_event :: "js_error \<Rightarrow> stream_event" where
  "catch_event err = error_event (if err_message err \<noteq> [] then err_message err else String_err err)"

text \<open>
  The \<open>while (true)\<close> loop over the reads of the body, with the buffer it carries; the
  result is the list of events handed to \<open>onEvent\<close>, in order.  When the reads run out the
  next read is still pending, and nothing more has been emitted yet.
\<close>

fun read_loop :: "(string \<Rightarrow> stream_event option) \<Rightarrow> string \<Rightarrow> read_result list \<Rightarrow> stream_event list" where
  "read_loop JSON_parse buffer [] = []"
| "read_loop JSON_parse buffer (Done # rest) = []"
| "read_loop JSON_parse buffer (Failed err # rest) = [catch_event err]"
| "read_loop JSON_parse buffer (Chunk val # rest) =
     (let parts = split_nn (buffer @ val) in
      List.map_filter (decode_part JSON_parse) (butlast parts)
        @ read_loop JSON_parse (last parts) rest)"

definition stream_request :: "string \<Rightarrow> json option \<Rightarrow> request" where
  "stream_request userMessage conversationId =
     POST ''/agents/messages/generate/stream''
       (JsonBody (JObj ((case conversationId of Some c \<Rightarrow> [(''conversation_id'', c)] | None \<Rightarrow> [])
                        @ [(''content'', JStr userMessage)])))"

text \<open>
  The events \<open>generateAgentResponseStream\<close> hands to its callback, given \<open>JSON.parse\<close>, the
  transport and whether a callback was supplied.
\<close>

definition generateAgentResponseStream ::
  "(string \<Rightarrow> stream_event option) \<Rightarrow> (request \<Rightarrow> fetch_result) \<Rightarrow> string \<Rightarrow> json option \<Rightarrow> bool \<Rightarrow> stream_event list" where
  "generateAgentResponseStream JSON_parse fetch userMessage conversationId onEvent =
     (if \<not> onEvent then []
      else case fetch (stream_request userMessage conversationId) of
        Rejected err \<Rightarrow> [catch_event err]
      | Resolved res \<Rightarrow>
          if \<not> res_ok res then [error_event (show_nat (res_status res) @ '' '' @ res_text res)]
          else (case res_body res of
                  None \<Rightarrow> []
                | Some reads \<Rightarrow> read_loop JSON_parse [] reads))"

text \<open>
  The handle's \<open>stop()\<close> is \<open>controller.abort()\<close>.  Its effect on the transport, by the Fetch
  standard: a \<open>fetch\<close> that has not resolved rejects with the abort error, and so does the
  read that is pending or comes next.  \<open>stop_during_read\<close> is the body whose first \<open>n\<close>
  reads had settled when \<open>stop()\<close> was called.
\<close>

definition stop_during_read :: "js_error \<Rightarrow> nat \<Rightarrow> read_result list \<Rightarrow> read_result list" where
  "stop_during_read abort_error n reads = take n reads @ [Failed abort_error]"

definition AbortError :: js_error where
  "AbortError = \<lparr>err_name = ''AbortError'', err_message = ''The user aborted a request.''\<rparr>"

text \<open>A terminal event is a \<open>final\<close> or an \<open>error\<close>.\<close>

definition terminal :: "stream_event \<Rightarrow> bool" where
  "terminal ev = (ev_type ev = ''final'' \<or> ev_type ev = ''error'')"

section \<open>The analysis page (\<open>pages/AnalysisAgentPage.tsx\<close>)\<close>

text \<open>\<open>event.result || event.workflow_result || event\<close>: one of the two results, or the event.\<close>

datatype workflow =
    ResultOf analysis_result
  | EventOf stream_event

definition selected_result :: "stream_event \<Rightarrow> workflow" where
  "selected_result ev =
     (case ev_result ev of
        Some r \<Rightarrow> ResultOf r
      | None \<Rightarrow> (case ev_workflow_result ev of Some r \<Rightarrow> ResultOf r | None \<Rightarrow> EventOf ev))"

fun final_output :: "workflow \<Rightarrow> string option" where
  "final_output (ResultOf r) = ar_final_output r"
| "final_output (EventOf ev) = ev_final_output ev"

text \<open>
  What a stream's callback closes over: the handler that opened it, the placeholder's id,
  the conversation of that handler (\<open>normalizedConversation\<close>, or the \<open>currentConversation\<close>
  of the render) and the arguments of the stream.
\<close>

datatype handler = StartHandler | SendHandler

record stream_closure =
  sc_handler :: handler
  sc_assistantId :: string
  sc_conversation :: json
  sc_userMessage :: string
  sc_conversationId :: json

text \<open>
  A call the page makes on a stream: \<open>stop()\<close> on a handle, or
  \<open>generateAgentResponseStream\<close>, which returns the handle given.
\<close>

datatype stream_call =
    StopCalled nat
  | StreamOpened nat

text \<open>
  The state of the page: its six \<open>useState\<close> cells and \<open>streamControllerRef\<close>, and what it
  did to the outside: the streams it opened (a handle is the position of its stream in
  that list), the handles whose \<open>stop()\<close> it called, the alerts it raised, and the calls
  it made on streams in the order it made them.
\<close>

record page_state =
  currentConversation :: "json option"
  messages :: "message list"
  isLoading :: bool
  initialQuery :: string
  hasStarted :: bool
  workflowResult :: "workflow option"
  streamControllerRef :: "nat option"
  streams :: "stream_closure list"
  stopped :: "nat list"
  alerts :: "string list"
  calls :: "stream_call list"

definition initial_state :: page_state where
  "initial_state =
     \<lparr>currentConversation = None, messages = [], isLoading = False, initialQuery = [],
      hasStarted = False, workflowResult = None, streamControllerRef = None,
      streams = [], stopped = [], alerts = [], calls = []\<rparr>"

text \<open>
  What the page awaits from outside: the transport, \<open>messagesApi.create\<close> at its declared
  type (it resolves to a \<open>Message\<close> or rejects), \<open>Date.now()\<close> and
  \<open>new Date().toISOString()\<close>.
\<close>

record env =
  env_fetch :: "request \<Rightarrow> fetch_result"
  env_createMessage :: "json \<Rightarrow> role \<Rightarrow> string \<Rightarrow> js_error + message"
  env_now :: nat
  env_iso :: string

subsection \<open>The conversation's identity\<close>

definition nullish :: "json option \<Rightarrow> bool" where
  "nullish v = (v = None \<or> v = Some JNull)"

fun truthy_opt :: "json option \<Rightarrow> bool" where
  "truthy_opt None = False"
| "truthy_opt (Some v) = truthy v"

text \<open>
  \<open>c?.id ?? c?.conversation_id ?? (typeof c === 'string' ? c : undefined)\<close>.
\<close>

definition conversation_id_of :: "json \<Rightarrow> json option" where
  "conversation_id_of c =
     (if \<not> nullish (get_prop ''id'' c) then get_prop ''id'' c
      else if \<not> nullish (get_prop ''conversation_id'' c) then get_prop ''conversation_id'' c
      else (case c of JStr s \<Rightarrow> Some c | _ \<Rightarrow> None))"

text \<open>\<open>!c || !c.id\<close>.\<close>

definition id_missing :: "json \<Rightarrow> bool" where
  "id_missing c = (if truthy c then truthy_prop ''id'' c = None else True)"

text \<open>The own properties an object spread \<open>{...c}\<close> copies.\<close>

fun own_props :: "json \<Rightarrow> (string \<times> json) list" where
  "own_props (JObj kvs) = kvs"
| "own_props (JArr xs) = zip (map show_nat [0..<length xs]) xs"
| "own_props (JStr s) = zip (map show_nat [0..<length s]) (map (\<lambda>c. JStr [c]) s)"
| "own_props v = []"

text \<open>\<open>{...c, id: ident}\<close>.\<close>

definition with_id :: "json \<Rightarrow> json \<Rightarrow> json" where
  "with_id c ident = JObj (set_prop ''id'' ident (own_props c))"

subsection \<open>The stream callbacks\<close>

text \<open>
  \<open>prev.map(m => m.id === assistantId ? {...m, content: (m.content || '') + event.partial} : m)\<close>
\<close>

definition on_partial :: "string \<Rightarrow> stream_event \<Rightarrow> message list \<Rightarrow> message list" where
  "on_partial assistantId ev prev =
     map (\<lambda>m. if m_id m = assistantId then m\<lparr>m_content := m_content m @ ev_partial ev\<rparr> else m) prev"

text \<open>
  The two \<open>setMessages\<close> of a \<open>final\<close>: the placeholder is replaced by \<open>assistant_message\<close>
  when there is one, otherwise its content becomes \<open>result?.final_output || m.content\<close>.
\<close>

definition on_final :: "string \<Rightarrow> stream_event \<Rightarrow> message list \<Rightarrow> message list" where
  "on_final assistantId ev prev =
     (case ev_assistant_message ev of
        Some assistant_msg \<Rightarrow> map (\<lambda>m. if m_id m = assistantId then assistant_msg else m) prev
      | None \<Rightarrow>
          map (\<lambda>m. if m_id m = assistantId
                    then m\<lparr>m_content :=
                           (if truthy_str (final_output (selected_result ev))
                            then the (final_output (selected_result ev)) else m_content m)\<rparr>
                    else m) prev)"

definition on_error :: "string \<Rightarrow> stream_event \<Rightarrow> message list \<Rightarrow> message list" where
  "on_error assistantId ev prev =
     map (\<lambda>m. if m_id m = assistantId
               then m\<lparr>m_content := ''Error: '' @ (if truthy_str (ev_error ev) then the (ev_error ev)
                                                    else ''An error occurred during analysis.'')\<rparr>
               else m) prev"

text \<open>
  The end of a \<open>final\<close>: when the event carries a conversation id other than the closure's
  conversation's, the page adopts it.
\<close>

definition adopt_conversation :: "json \<Rightarrow> stream_event \<Rightarrow> page_state \<Rightarrow> page_state" where
  "adopt_conversation conv ev st =
     (if truthy_str (ev_conversation_id ev) \<and> get_prop ''id'' conv \<noteq> Some (JStr (the (ev_conversation_id ev)))
      then st\<lparr>currentConversation := Some (with_id conv (JStr (the (ev_conversation_id ev))))\<rparr>
      else st)"

text \<open>The callback \<open>handleStartAnalysis\<close> passes; \<open>controller\<close> is the stream's own handle.\<close>

definition onEvent_start :: "nat \<Rightarrow> stream_closure \<Rightarrow> stream_event \<Rightarrow> page_state \<Rightarrow> page_state" where
  "onEvent_start controller sc ev st =
     (if ev_type ev = ''partial''
      then st\<lparr>messages := on_partial (sc_assistantId sc) ev (messages st)\<rparr>
      else if ev_type ev = ''status'' then st
      else if ev_type ev = ''final''
      then adopt_conversation (sc_conversation sc) ev
             (st\<lparr>messages := on_final (sc_assistantId sc) ev (messages st),
                 streamControllerRef := Some controller,
                 workflowResult := Some (selected_result ev)\<rparr>)
      else if ev_type ev = ''error''
      then st\<lparr>messages := on_error (sc_assistantId sc) ev (messages st)\<rparr>
      else st)"

text \<open>The callback \<open>handleSendMessage\<close> passes.\<close>

definition onEvent_send :: "stream_closure \<Rightarrow> stream_event \<Rightarrow> page_state \<Rightarrow> page_state" where
  "onEvent_send sc ev st =
     (if ev_type ev = ''partial''
      then st\<lparr>messages := on_partial (sc_assistantId sc) ev (messages st)\<rparr>
      else if ev_type ev = ''final''
      then adopt_conversation (sc_conversation sc) ev
             (st\<lparr>messages := on_final (sc_assistantId sc) ev (messages st),
                 workflowResult := Some (selected_result ev)\<rparr>)
      else if ev_type ev = ''error''
      then st\<lparr>messages := on_error (sc_assistantId sc) ev (messages st)\<rparr>
      else st)"

text \<open>
  The stream with handle \<open>h\<close> hands an event to its callback.  Nothing in a callback asks
  whether \<open>stop()\<close> was called on its stream or whether a later stream was opened.
\<close>

definition deliver :: "nat \<Rightarrow> stream_event \<Rightarrow> page_state \<Rightarrow> page_state" where
  "deliver h ev st =
     (if h < length (streams st)
      then (case sc_handler (streams st ! h) of
              StartHandler \<Rightarrow> onEvent_start h (streams st ! h) ev st
            | SendHandler \<Rightarrow> onEvent_send (streams st ! h) ev st)
      else st)"

fun deliver_all :: "nat \<Rightarrow> stream_event list \<Rightarrow> page_state \<Rightarrow> page_state" where
  "deliver_all h [] st = st"
| "deliver_all h (ev # evs) st = deliver_all h evs (deliver h ev st)"

subsection \<open>The handlers\<close>

definition placeholder :: "string \<Rightarrow> json \<Rightarrow> string \<Rightarrow> message" where
  "placeholder assistantId conversationId created_at =
     \<lparr>m_id = assistantId, m_conversation_id = conversationId, m_role = Assistant,
      m_content = [], m_created_at = created_at\<rparr>"

text \<open>\<open>if (streamControllerRef.current) { try { streamControllerRef.current.stop(); } catch (e) {} }\<close>\<close>

definition stop_existing :: "page_state \<Rightarrow> page_state" where
  "stop_existing st =
     (case streamControllerRef st of
        Some h \<Rightarrow> st\<lparr>stopped := stopped st @ [h], calls := calls st @ [StopCalled h]\<rparr>
      | None \<Rightarrow> st)"

text \<open>The call of \<open>generateAgentResponseStream\<close>: the new stream's handle is its position.\<close>

definition open_stream :: "stream_closure \<Rightarrow> page_state \<Rightarrow> page_state" where
  "open_stream sc st =
     st\<lparr>streams := streams st @ [sc], calls := calls st @ [StreamOpened (length (streams st))]\<rparr>"

definition start_title :: "string \<Rightarrow> string" where
  "start_title q = take 50 q @ (if length q > 50 then ''...'' else [])"

text \<open>
  The \<open>try\<close> block of \<open>handleStartAnalysis\<close>: the state it leaves, and the error it threw
  if it threw one.  The page runs it in one piece here: the awaited calls are answered at
  once by the environment.
\<close>

definition handleStartAnalysis_try :: "env \<Rightarrow> page_state \<Rightarrow> page_state \<times> js_error option" where
  "handleStartAnalysis_try e st =
     (case snd (conversationsApi_create (env_fetch e) (Some (start_title (initialQuery st)))) of
        Inl err \<Rightarrow> (st, Some err)
      | Inr conversation \<Rightarrow>
          let convId = conversation_id_of conversation;
              normalizedConversation =
                (if truthy_opt convId then with_id conversation (the convId) else conversation)
          in
          if id_missing normalizedConversation
          then (st, Some (Error ''Conversation id missing from server response; see console for the raw server response.''))
          else
            let st1 = st\<lparr>currentConversation := Some normalizedConversation\<rparr>;
                ident = the (get_prop ''id'' normalizedConversation)
            in
            (case env_createMessage e ident User (trim (initialQuery st)) of
               Inl err \<Rightarrow> (st1, Some err)
             | Inr userMessage \<Rightarrow>
                 let assistantId = ''stream-'' @ show_nat (env_now e);
                     st2 = st1\<lparr>messages := [userMessage, placeholder assistantId ident (env_iso e)]\<rparr>
                 in
                 (open_stream
                    \<lparr>sc_handler = StartHandler, sc_assistantId = assistantId,
                     sc_conversation = normalizedConversation,
                     sc_userMessage = trim (initialQuery st), sc_conversationId = ident\<rparr>
                    (stop_existing st2), None)))"

definition handleStartAnalysis :: "env \<Rightarrow> page_state \<Rightarrow> page_state" where
  "handleStartAnalysis e st =
     (if trim (initialQuery st) = [] then st
      else
        let (st1, thrown) = handleStartAnalysis_try e (st\<lparr>isLoading := True, hasStarted := True\<rparr>);
            st2 = (case thrown of
                     None \<Rightarrow> st1
                   | Some err \<Rightarrow>
                       st1\<lparr>alerts := alerts st1 @
                             [if err_message err \<noteq> [] then err_message err
                              else ''Failed to start analysis. Please try again.'']\<rparr>)
        in st2\<lparr>isLoading := False\<rparr>)"

definition handleSendMessage_try :: "string \<Rightarrow> env \<Rightarrow> json \<Rightarrow> page_state \<Rightarrow> page_state \<times> js_error option" where
  "handleSendMessage_try content e conversation st =
     (let conversationId = conversation_id_of conversation in
      if \<not> truthy_opt conversationId then (st, Some (Error ''No conversation id''))
      else
        (case env_createMessage e (the conversationId) User content of
           Inl err \<Rightarrow> (st, Some err)
         | Inr userMessage \<Rightarrow>
             let st1 = st\<lparr>messages := messages st @ [userMessage]\<rparr>;
                 assistantId = ''stream-'' @ show_nat (env_now e);
                 st2 = st1\<lparr>messages := messages st1 @ [placeholder assistantId (the conversationId) (env_iso e)]\<rparr>;
                 st3 = stop_existing st2;
                 controller = length (streams st3);
                 st4 = open_stream
                         \<lparr>sc_handler = SendHandler, sc_assistantId = assistantId,
                          sc_conversation = conversation,
                          sc_userMessage = content, sc_conversationId = the conversationId\<rparr> st3
             in (st4\<lparr>streamControllerRef := Some controller\<rparr>, None)))"

definition handleSendMessage :: "string \<Rightarrow> env \<Rightarrow> page_state \<Rightarrow> page_state" where
  "handleSendMessage content e st =
     (if \<not> truthy_opt (currentConversation st) then st
      else
        let (st1, thrown) = handleSendMessage_try content e (the (currentConversation st)) (st\<lparr>isLoading := True\<rparr>);
            st2 = (case thrown of
                     None \<Rightarrow> st1
                   | Some err \<Rightarrow> st1\<lparr>alerts := alerts st1 @ [''Failed to send message. Please try again.'']\<rparr>)
        in st2\<lparr>isLoading := False\<rparr>)"

text \<open>
  \<open>loadMessages\<close>, which the page's effect runs when \<open>currentConversation\<close> changes;
  \<open>fetched\<close> is what \<open>messagesApi.getByConversation\<close> settles to, at its declared type.
  The list fetched replaces the message list.
\<close>

definition loadMessages :: "js_error + message list \<Rightarrow> page_state \<Rightarrow> page_state" where
  "loadMessages fetched st =
     (if \<not> truthy_opt (currentConversation st) then st
      else if \<not> truthy_opt (conversation_id_of (the (currentConversation st))) then st
      else (case fetched of Inl err \<Rightarrow> st | Inr msgs \<Rightarrow> st\<lparr>messages := msgs\<rparr>))"

text \<open>The cleanup of the page's effect, and the button \<open>New Conversation\<close>.\<close>

definition unmount :: "page_state \<Rightarrow> page_state" where
  "unmount st =
     (case streamControllerRef st of
        Some h \<Rightarrow> st\<lparr>stopped := stopped st @ [h], calls := calls st @ [StopCalled h],
                    streamControllerRef := None\<rparr>
      | None \<Rightarrow> st)"

definition handleNewConversation :: "page_state \<Rightarrow> page_state" where
  "handleNewConversation st =
     st\<lparr>currentConversation := None, messages := [], initialQuery := [], hasStarted := False\<rparr>"

section \<open>Concrete environments\<close>

text \<open>A backend that answers every request with the same status, text and decoded payload.\<close>

definition backend :: "nat \<Rightarrow> string \<Rightarrow> js_error + json \<Rightarrow> request \<Rightarrow> fetch_result" where
  "backend status txt payload rq =
     Resolved \<lparr>res_status = status, res_text = txt, res_json = payload, res_body = None\<rparr>"

text \<open>A backend that answers with status 200 and a body that yields the given reads.\<close>

definition streaming_backend :: "read_result list \<Rightarrow> request \<Rightarrow> fetch_result" where
  "streaming_backend reads rq =
     Resolved \<lparr>res_status = 200, res_text = [], res_json = Inl (Error []), res_body = Some reads\<rparr>"

text \<open>\<open>JSON.parse\<close> on the two frames of the examples; everything else is taken not to parse.\<close>

definition final_frame :: string where
  "final_frame = [CHR ''{'', CHR 0x22] @ ''type'' @ [CHR 0x22, CHR '':'', CHR 0x22] @ ''final'' @ [CHR 0x22, CHR ''}'']"

definition partial_frame :: string where
  "partial_frame = [CHR ''{'', CHR 0x22] @ ''type'' @ [CHR 0x22, CHR '':'', CHR 0x22] @ ''partial''
     @ [CHR 0x22, CHR '','', CHR 0x22] @ ''partial'' @ [CHR 0x22, CHR '':'', CHR 0x22] @ ''x'' @ [CHR 0x22, CHR ''}'']"

definition partial_event :: "string \<Rightarrow> stream_event" where
  "partial_event fragment = (bare_event ''partial'')\<lparr>ev_partial := fragment\<rparr>"

definition frame_parser :: "string \<Rightarrow> stream_event option" where
  "frame_parser s =
     (if s = final_frame then Some (bare_event ''final'')
      else if s = partial_frame then Some (partial_event ''x'')
      else None)"

text \<open>
  An environment for the page: conversation creation is answered by \<open>fetch\<close>, message
  creation echoes the message with an id made from the clock, and the clock reads \<open>now\<close>.
\<close>

definition page_env :: "(request \<Rightarrow> fetch_result) \<Rightarrow> nat \<Rightarrow> env" where
  "page_env fetch now =
     \<lparr>env_fetch = fetch,
      env_createMessage = (\<lambda>conversationId role content.
         Inr \<lparr>m_id = ''msg-'' @ show_nat now, m_conversation_id = conversationId, m_role = role,
              m_content = content, m_created_at = ''2025-01-01T00:00:00.000Z''\<rparr>),
      env_now = now,
      env_iso = ''2025-01-01T00:00:00.000Z''\<rparr>"

definition created_c1 :: "request \<Rightarrow> fetch_result" where
  "created_c1 = backend 200 [] (Inr (JObj [(''id'', JStr ''c1''), (''title'', JStr ''Revenue trend Q1'')]))"

text \<open>The page after the user typed the prompt of the specification's scenario.\<close>

definition typed_prompt :: page_state where
  "typed_prompt = initial_state\<lparr>initialQuery := ''Revenue trend Q1''\<rparr>"

text \<open>
  The session started, then two more turns sent one after the other while the earlier
  stream is still open.
\<close>

definition one_turn :: page_state where
  "one_turn = handleStartAnalysis (page_env created_c1 1) typed_prompt"

definition two_turns :: page_state where
  "two_turns = handleSendMessage ''And Q2?'' (page_env created_c1 2) one_turn"

definition three_turns :: page_state where
  "three_turns = handleSendMessage ''And Q3?'' (page_env created_c1 3) two_turns"

definition refused :: "request \<Rightarrow> fetch_result" where
  "refused = backend 500 ''overloaded'' (Inl (Error ''Unexpected token''))"

text \<open>The third turn sent within the millisecond of the second: \<open>Date.now()\<close> reads 2 again.\<close>

definition same_clock_turns :: page_state where
  "same_clock_turns = handleSendMessage ''And Q3?'' (page_env created_c1 2) two_turns"

text \<open>A backend that creates a conversation and returns it without any identity.\<close>

definition created_without_id :: "request \<Rightarrow> fetch_result" where
  "created_without_id = backend 200 [] (Inr (JObj [(''title'', JStr ''Revenue trend Q1'')]))"

text \<open>A body whose only chunk holds a \<open>final\<close> frame followed by a \<open>partial\<close> frame.\<close>

definition final_then_partial :: "read_result list" where
  "final_then_partial =
     [Chunk (''data: '' @ final_frame @ [CHR 0x0A, CHR 0x0A] @ ''data: '' @ partial_frame @ [CHR 0x0A, CHR 0x0A])]"

text \<open>A \<open>final\<close> event whose only field besides the type is an empty \<open>final_output\<close>.\<close>

definition final_with_empty_output :: stream_event where
  "final_with_empty_output = (bare_event ''final'')\<lparr>ev_final_output := Some []\<rparr>"

text \<open>A transport on which \<open>fetch\<close> itself rejects.\<close>

definition rejecting :: "js_error \<Rightarrow> request \<Rightarrow> fetch_result" where
  "rejecting err rq = Rejected err"

text \<open>A backend that answers the conversation endpoint alone.\<close>

definition create_only :: "json \<Rightarrow> request \<Rightarrow> fetch_result" where
  "create_only payload rq =
     (if req_url rq = API_BASE_URL @ ''/agents/conversations''
      then Resolved \<lparr>res_status = 200, res_text = [], res_json = Inr payload, res_body = None\<rparr>
      else Rejected (Error ''Failed to fetch''))"

section \<open>Lemmas\<close>

subsection \<open>The resource clients\<close>

lemma fetch_json_backend:
  "fetch_json (backend s t p) rq fail =
     (if 200 \<le> s \<and> s \<le> 299 then p
      else Inl (fail \<lparr>res_status = s, res_text = t, res_json = p, res_body = None\<rparr>))"
  by (simp add: fetch_json_def backend_def res_ok_def)

lemma normalize_string:
  "normalize_conversation title (JStr s)
     = Inr (JObj [(''id'', JStr s), (''title'', JStr (title_or_empty title))])"
  by (simp add: normalize_conversation_def read_prop_def or_else_def unwrap_data_def
      truthy_prop_def fill_id_def unwrap_data_without_id_def)

lemma normalize_data_envelope:
  "normalize_conversation title (JObj [(''data'', JObj [(''id'', JStr ''x'')])])
     = Inr (JObj [(''id'', JStr ''x'')])"
  by (simp add: normalize_conversation_def read_prop_def or_else_def unwrap_data_def
      truthy_prop_def fill_id_def unwrap_data_without_id_def tryGetId.simps)

lemma normalize_array:
  "normalize_conversation title (JArr [JObj [(''id'', JStr ''a'')], JObj [(''id'', JStr ''b'')]])
     = Inr (JObj [(''id'', JStr ''a'')])"
  by (simp add: normalize_conversation_def read_prop_def or_else_def unwrap_data_def
      truthy_prop_def fill_id_def unwrap_data_without_id_def tryGetId.simps)

lemma create_depends_on_response:
  assumes "fetch (POST ''/agents/conversations'' (title_body title))
         = fetch' (POST ''/agents/conversations'' (title_body title))"
  shows "conversationsApi_create fetch title = conversationsApi_create fetch' title"
  using assms by (simp add: conversationsApi_create_def fetch_json_def Let_def)

lemma create_not_ok:
  assumes "fetch (POST ''/agents/conversations'' (title_body title)) = Resolved r" "\<not> res_ok r"
  shows "snd (conversationsApi_create fetch title) = Inl (Error ''Failed to create conversation'')"
  using assms by (simp add: conversationsApi_create_def fetch_json_def Let_def)

subsection \<open>Splitting the buffer\<close>

lemma split_nn_nonempty: "split_nn s \<noteq> []"
  by (induction s rule: split_nn.induct) (auto split: list.splits)

lemma split_nn_Cons:
  "\<not> (c = CHR 0x0A \<and> d = CHR 0x0A) \<Longrightarrow>
   split_nn (c # d # r) = (c # hd (split_nn (d # r))) # tl (split_nn (d # r))"
  using split_nn_nonempty [of "d # r"] by (auto split: list.splits)

text \<open>A text without a boundary is its own single part.\<close>

lemma split_nn_single: "split_nn s = [p] \<Longrightarrow> p = s"
proof (induction s arbitrary: p rule: split_nn.induct)
  case (1 c d r)
  show ?case
  proof (cases "c = CHR 0x0A \<and> d = CHR 0x0A")
    case True
    with "1.prems" show ?thesis using split_nn_nonempty [of r] by simp
  next
    case False
    from "1.prems" split_nn_Cons [OF False, of r]
    have eq: "(c # hd (split_nn (d # r))) # tl (split_nn (d # r)) = [p]"
      by (simp del: split_nn.simps)
    then have t: "tl (split_nn (d # r)) = []" and p: "p = c # hd (split_nn (d # r))" by simp_all
    from t have "split_nn (d # r) = [hd (split_nn (d # r))]"
      using split_nn_nonempty [of "d # r"] by (cases "split_nn (d # r)") simp_all
    with "1.IH"(2) [OF False] have "hd (split_nn (d # r)) = d # r" by blast
    with p show ?thesis by simp
  qed
qed simp_all

text \<open>
  Splitting a text that grows: the parts before the last stay, and the last part goes on
  with the new text.  This is what keeping the last part in the buffer relies on.
\<close>

lemma split_nn_append:
  "split_nn (a @ b) = butlast (split_nn a) @ split_nn (last (split_nn a) @ b)"
proof (induction a rule: split_nn.induct)
  case (1 c d r)
  show ?case
  proof (cases "c = CHR 0x0A \<and> d = CHR 0x0A")
    case True
    with 1 show ?thesis using split_nn_nonempty [of r] by simp
  next
    case False
    let ?S = "split_nn (d # r)"
    have ne: "?S \<noteq> []" by (rule split_nn_nonempty)
    have IH: "split_nn ((d # r) @ b) = butlast ?S @ split_nn (last ?S @ b)"
      using "1.IH"(2) [OF False] .
    have L: "split_nn (c # d # r) = (c # hd ?S) # tl ?S" using False by (rule split_nn_Cons)
    have R: "split_nn ((c # d # r) @ b) = (c # hd (split_nn ((d # r) @ b))) # tl (split_nn ((d # r) @ b))"
      using False split_nn_Cons [of c d "r @ b"] by simp
    show ?thesis
    proof (cases "tl ?S = []")
      case True
      then have S: "?S = [d # r]" using ne split_nn_single [of "d # r"] by (cases ?S) auto
      show ?thesis using S L by simp
    next
      case several: False
      then obtain p q qs where S: "?S = p # q # qs" using ne by (cases ?S; cases "tl ?S") auto
      show ?thesis using L R IH S by simp
    qed
  qed
qed simp_all

text \<open>The buffer never holds a boundary.\<close>

lemma split_nn_last: "split_nn (last (split_nn s)) = [last (split_nn s)]"
proof (induction s rule: split_nn.induct)
  case (1 c d r)
  show ?case
  proof (cases "c = CHR 0x0A \<and> d = CHR 0x0A")
    case True
    with 1 show ?thesis using split_nn_nonempty [of r] by simp
  next
    case False
    let ?S = "split_nn (d # r)"
    have ne: "?S \<noteq> []" by (rule split_nn_nonempty)
    have L: "split_nn (c # d # r) = (c # hd ?S) # tl ?S" using False by (rule split_nn_Cons)
    show ?thesis
    proof (cases "tl ?S = []")
      case True
      then have S: "?S = [d # r]" using ne split_nn_single [of "d # r"] by (cases ?S) auto
      have "split_nn (c # d # r) = [c # d # r]" using L S by simp
      then show ?thesis by (simp del: split_nn.simps)
    next
      case several: False
      then obtain p q qs where S: "?S = p # q # qs" using ne by (cases ?S; cases "tl ?S") auto
      have "last (split_nn (c # d # r)) = last ?S" using L S by (simp del: split_nn.simps)
      then show ?thesis using "1.IH"(2) [OF False] by (simp del: split_nn.simps)
    qed
  qed
qed simp_all

subsection \<open>The read loop\<close>

text \<open>
  Whatever the chunking, the loop emits the decodable parts of the whole text received,
  its last part excepted.
\<close>

lemma read_loop_frames:
  "split_nn buf = [buf] \<Longrightarrow>
   read_loop P buf (map Chunk cs)
     = List.map_filter (decode_part P) (butlast (split_nn (buf @ concat cs)))"
proof (induction cs arbitrary: buf)
  case Nil
  then show ?case by (simp add: List.map_filter_def)
next
  case (Cons c cs)
  let ?S = "split_nn (buf @ c)"
  have ne: "split_nn (last ?S @ concat cs) \<noteq> []" by (rule split_nn_nonempty)
  have "read_loop P (last ?S) (map Chunk cs)
        = List.map_filter (decode_part P) (butlast (split_nn (last ?S @ concat cs)))"
    by (rule Cons.IH) (rule split_nn_last)
  moreover have "split_nn (buf @ concat (c # cs)) = butlast ?S @ split_nn (last ?S @ concat cs)"
    using split_nn_append [of "buf @ c" "concat cs"] by simp
  ultimately show ?case
    using ne by (simp add: Let_def List.map_filter_def butlast_append del: split_nn.simps)
qed

lemma read_loop_closed:
  "read_loop P buf (map Chunk cs @ Done # rest) = read_loop P buf (map Chunk cs)"
  by (induction cs arbitrary: buf) (simp_all add: Let_def)

lemma read_loop_failed:
  "read_loop P buf (map Chunk cs @ Failed e # rest)
     = read_loop P buf (map Chunk cs) @ [catch_event e]"
  by (induction cs arbitrary: buf) (simp_all add: Let_def)

lemma stream_of_reads:
  "generateAgentResponseStream P (streaming_backend reads) u c True = read_loop P [] reads"
  by (simp add: generateAgentResponseStream_def streaming_backend_def res_ok_def)

subsection \<open>The stream callbacks\<close>

lemma on_partial_length: "length (on_partial aid ev ms) = length ms"
  by (simp add: on_partial_def)

lemma on_partial_nth:
  "i < length ms \<Longrightarrow>
   on_partial aid ev ms ! i =
     (if m_id (ms ! i) = aid then (ms ! i)\<lparr>m_content := m_content (ms ! i) @ ev_partial ev\<rparr>
      else ms ! i)"
  by (simp add: on_partial_def)

lemma on_partial_ids: "map m_id (on_partial aid ev ms) = map m_id ms"
  by (simp add: on_partial_def)

lemma on_partial_roles: "map m_role (on_partial aid ev ms) = map m_role ms"
  by (simp add: on_partial_def)

lemma on_final_length: "length (on_final aid ev ms) = length ms"
  by (simp add: on_final_def split: option.splits)

lemma on_error_length: "length (on_error aid ev ms) = length ms"
  by (simp add: on_error_def)

lemma on_final_other:
  "i < length ms \<Longrightarrow> m_id (ms ! i) \<noteq> aid \<Longrightarrow> on_final aid ev ms ! i = ms ! i"
  by (simp add: on_final_def split: option.splits)

lemma on_error_other:
  "i < length ms \<Longrightarrow> m_id (ms ! i) \<noteq> aid \<Longrightarrow> on_error aid ev ms ! i = ms ! i"
  by (simp add: on_error_def)

lemma adopt_messages: "messages (adopt_conversation c ev st) = messages st"
  by (simp add: adopt_conversation_def)

lemma adopt_streams: "streams (adopt_conversation c ev st) = streams st"
  by (simp add: adopt_conversation_def)

lemma deliver_streams: "streams (deliver h ev st) = streams st"
  by (simp add: deliver_def onEvent_start_def onEvent_send_def adopt_streams split: handler.splits)

lemma deliver_all_streams: "streams (deliver_all h evs st) = streams st"
  by (induction evs arbitrary: st) (simp_all add: deliver_streams)

lemma deliver_all_append:
  "deliver_all h (xs @ ys) st = deliver_all h ys (deliver_all h xs st)"
  by (induction xs arbitrary: st) simp_all

lemma deliver_partial:
  "h < length (streams st) \<Longrightarrow> ev_type ev = ''partial'' \<Longrightarrow>
   deliver h ev st = st\<lparr>messages := on_partial (sc_assistantId (streams st ! h)) ev (messages st)\<rparr>"
  by (simp add: deliver_def onEvent_start_def onEvent_send_def split: handler.splits)

lemma deliver_final:
  "h < length (streams st) \<Longrightarrow> ev_type ev = ''final'' \<Longrightarrow>
   messages (deliver h ev st) = on_final (sc_assistantId (streams st ! h)) ev (messages st)"
  by (simp add: deliver_def onEvent_start_def onEvent_send_def adopt_messages split: handler.splits)

text \<open>An event changes the message list in one of three ways, or not at all.\<close>

lemma deliver_messages_cases:
  "messages (deliver h ev st) = messages st
   \<or> messages (deliver h ev st) = on_partial (sc_assistantId (streams st ! h)) ev (messages st)
   \<or> messages (deliver h ev st) = on_final (sc_assistantId (streams st ! h)) ev (messages st)
   \<or> messages (deliver h ev st) = on_error (sc_assistantId (streams st ! h)) ev (messages st)"
  by (simp add: deliver_def onEvent_start_def onEvent_send_def adopt_messages split: handler.splits)

lemma deliver_length: "length (messages (deliver h ev st)) = length (messages st)"
  using deliver_messages_cases [of h ev st]
  by (auto simp: on_partial_length on_final_length on_error_length)

lemma deliver_other:
  "i < length (messages st) \<Longrightarrow> m_id (messages st ! i) \<noteq> sc_assistantId (streams st ! h) \<Longrightarrow>
   messages (deliver h ev st) ! i = messages st ! i"
  using deliver_messages_cases [of h ev st]
  by (auto simp: on_partial_nth on_final_other on_error_other)

lemma deliver_error:
  "h < length (streams st) \<Longrightarrow> ev_type ev = ''error'' \<Longrightarrow>
   messages (deliver h ev st) = on_error (sc_assistantId (streams st ! h)) ev (messages st)"
  by (simp add: deliver_def onEvent_start_def onEvent_send_def adopt_messages split: handler.splits)

lemma deliver_all_length: "length (messages (deliver_all h evs st)) = length (messages st)"
  by (induction evs arbitrary: st) (simp_all add: deliver_length)

text \<open>However many events a stream delivers, an entry with another id stays what it was.\<close>

lemma deliver_all_other:
  "i < length (messages st) \<Longrightarrow> m_id (messages st ! i) \<noteq> sc_assistantId (streams st ! h) \<Longrightarrow>
   messages (deliver_all h evs st) ! i = messages st ! i"
proof (induction evs arbitrary: st)
  case Nil
  then show ?case by simp
next
  case (Cons ev evs)
  have same: "messages (deliver h ev st) ! i = messages st ! i"
    using Cons.prems by (rule deliver_other)
  have "messages (deliver_all h evs (deliver h ev st)) ! i = messages (deliver h ev st) ! i"
    using Cons.prems by (intro Cons.IH) (simp_all add: deliver_length deliver_streams same)
  with same show ?case by simp
qed

text \<open>A run of \<open>partial\<close> events appends its fragments, in order, to the placeholder.\<close>

lemma partials_content:
  assumes "h < length (streams st)" "i < length (messages st)"
    "m_id (messages st ! i) = sc_assistantId (streams st ! h)"
    "\<forall>p \<in> set ps. ev_type p = ''partial''"
  shows "length (messages (deliver_all h ps st)) = length (messages st)
     \<and> messages (deliver_all h ps st) ! i
       = (messages st ! i)\<lparr>m_content := m_content (messages st ! i) @ concat (map ev_partial ps)\<rparr>"
  using assms
proof (induction ps arbitrary: st)
  case Nil
  then show ?case by simp
next
  case (Cons p ps)
  let ?st = "deliver h p st"
  have p: "ev_type p = ''partial''" using Cons.prems by simp
  have d: "?st = st\<lparr>messages := on_partial (sc_assistantId (streams st ! h)) p (messages st)\<rparr>"
    using Cons.prems(1) p by (rule deliver_partial)
  have 1: "h < length (streams ?st)" using Cons.prems by (simp add: deliver_streams)
  have 2: "i < length (messages ?st)" using Cons.prems by (simp add: deliver_length)
  have 3: "messages ?st ! i = (messages st ! i)\<lparr>m_content := m_content (messages st ! i) @ ev_partial p\<rparr>"
    using Cons.prems by (simp add: d on_partial_nth)
  have 4: "m_id (messages ?st ! i) = sc_assistantId (streams ?st ! h)"
    using Cons.prems by (simp add: 3 deliver_streams)
  have 5: "\<forall>p \<in> set ps. ev_type p = ''partial''" using Cons.prems by simp
  from Cons.IH [OF 1 2 4 5] show ?case
    by (simp add: 3 deliver_length)
qed

subsection \<open>The handlers\<close>

text \<open>When the \<open>??\<close> chain finds nothing truthy, the check of \<open>handleStartAnalysis\<close> throws.\<close>

lemma no_identity_missing:
  "\<not> truthy_opt (conversation_id_of conv) \<Longrightarrow> id_missing conv"
  by (cases "get_prop ''id'' conv")
     (auto simp: conversation_id_of_def id_missing_def truthy_prop_def nullish_def
           split: if_splits option.splits)

lemma start_thrown:
  assumes "trim (initialQuery st) \<noteq> []"
    and "handleStartAnalysis_try e (st\<lparr>isLoading := True, hasStarted := True\<rparr>)
         = (st\<lparr>isLoading := True, hasStarted := True\<rparr>, Some err)"
  shows "handleStartAnalysis e st
     = st\<lparr>hasStarted := True, isLoading := False,
          alerts := alerts st @ [if err_message err \<noteq> [] then err_message err
                                 else ''Failed to start analysis. Please try again.'']\<rparr>"
  using assms by (simp add: handleStartAnalysis_def)

lemma try_create_failed:
  assumes "snd (conversationsApi_create (env_fetch e) (Some (start_title (initialQuery st)))) = Inl err"
  shows "handleStartAnalysis_try e st = (st, Some err)"
  using assms by (simp add: handleStartAnalysis_try_def)

lemma try_no_identity:
  assumes "snd (conversationsApi_create (env_fetch e) (Some (start_title (initialQuery st)))) = Inr conv"
    and "\<not> truthy_opt (conversation_id_of conv)"
  shows "handleStartAnalysis_try e st
     = (st, Some (Error ''Conversation id missing from server response; see console for the raw server response.''))"
  using assms no_identity_missing [OF assms(2)] by (simp add: handleStartAnalysis_try_def Let_def)

text \<open>
  A turn that is sent: the state it leaves when the conversation has an identity, the
  user's message is created and the reference holds a handle.
\<close>

lemma send_post_state:
  assumes "currentConversation st = Some conv" "truthy conv"
    and "conversation_id_of conv = Some cid" "truthy cid"
    and "env_createMessage e cid User content = Inr userMessage"
    and "streamControllerRef st = Some h"
  shows "handleSendMessage content e st
     = st\<lparr>messages := messages st
                @ [userMessage, placeholder (''stream-'' @ show_nat (env_now e)) cid (env_iso e)],
          stopped := stopped st @ [h],
          calls := calls st @ [StopCalled h, StreamOpened (length (streams st))],
          streams := streams st
                @ [\<lparr>sc_handler = SendHandler, sc_assistantId = ''stream-'' @ show_nat (env_now e),
                    sc_conversation = conv, sc_userMessage = content, sc_conversationId = cid\<rparr>],
          streamControllerRef := Some (length (streams st)),
          isLoading := False\<rparr>"
  using assms
  by (simp add: handleSendMessage_def handleSendMessage_try_def Let_def stop_existing_def open_stream_def)

section \<open>The claims\<close>

subsection \<open>C10: message operations without a conversation identity\<close>

text \<open>
  Claim C10.  Fetching the messages of a conversation whose identity is \<open>null\<close> or
  \<open>undefined\<close> returns the empty list and issues no request, and creating a message
  without a conversation identity throws \<open>conversationId is required\<close> and issues no
  request.  The operations return nothing but the requests issued and the outcome, so no
  other state is touched; this holds whatever the transport would have answered.
\<close>

theorem missing_conversation_id_no_request:
  "messagesApi_getByConversation fetch None = ([], Inr (JArr []))
   \<and> messagesApi_create fetch None role content = ([], Inl (Error ''conversationId is required''))"
  by (simp add: messagesApi_getByConversation_def messagesApi_create_def no_id_def)

subsection \<open>C5: normalising a created conversation\<close>

text \<open>
  Claim C5.  \<open>conversationsApi.create\<close> turns a bare string payload into a conversation
  whose \<open>id\<close> is that string, the payload \<open>{data: {id: "x"}}\<close> into one with \<open>id\<close> \<open>"x"\<close>,
  and the array \<open>[{id: "a"}, {id: "b"}]\<close> into its first entry, with \<open>id\<close> \<open>"a"\<close>.  The
  search takes the first match, and the outcome depends on nothing but the response to
  the one request: two transports that answer it alike give the same result.
\<close>

theorem normalize_recovers_identity:
  "snd (conversationsApi_create (backend 200 t (Inr (JStr s))) title)
     = Inr (JObj [(''id'', JStr s), (''title'', JStr (title_or_empty title))])
   \<and> snd (conversationsApi_create (backend 200 t (Inr (JObj [(''data'', JObj [(''id'', JStr ''x'')])]))) title)
     = Inr (JObj [(''id'', JStr ''x'')])
   \<and> snd (conversationsApi_create
            (backend 200 t (Inr (JArr [JObj [(''id'', JStr ''a'')], JObj [(''id'', JStr ''b'')]]))) title)
     = Inr (JObj [(''id'', JStr ''a'')])
   \<and> tryGetId (JObj [(''first'', JObj [(''id'', JStr ''a'')]), (''second'', JObj [(''id'', JStr ''b'')])])
     = Some (JStr ''a'')
   \<and> (fetch (POST ''/agents/conversations'' (title_body title))
         = fetch' (POST ''/agents/conversations'' (title_body title))
       \<longrightarrow> conversationsApi_create fetch title = conversationsApi_create fetch' title)"
proof -
  have "tryGetId (JObj [(''first'', JObj [(''id'', JStr ''a'')]), (''second'', JObj [(''id'', JStr ''b'')])])
     = Some (JStr ''a'')"
    by (simp add: tryGetId.simps truthy_prop_def)
  then show ?thesis
    using create_depends_on_response [of fetch title fetch']
    by (simp add: conversationsApi_create_def fetch_json_backend Let_def
        normalize_string normalize_data_envelope normalize_array)
qed

theorem normalize_recovers_identity_witness:
  "backend 200 [] (Inr (JStr ''c1'')) (POST ''/agents/conversations'' (title_body None))
     = create_only (JStr ''c1'') (POST ''/agents/conversations'' (title_body None))
   \<and> conversationsApi_create (create_only (JStr ''c1'')) None
     = conversationsApi_create (backend 200 [] (Inr (JStr ''c1''))) None
   \<and> snd (conversationsApi_create (create_only (JStr ''c1'')) None)
     = Inr (JObj [(''id'', JStr ''c1''), (''title'', JStr [])])"
proof -
  have same: "backend 200 [] (Inr (JStr ''c1'')) (POST ''/agents/conversations'' (title_body None))
     = create_only (JStr ''c1'') (POST ''/agents/conversations'' (title_body None))"
    by (simp add: backend_def create_only_def POST_def)
  note inst = normalize_recovers_identity
         [of "[]" "''c1''" None "backend 200 [] (Inr (JStr ''c1''))" "create_only (JStr ''c1'')"]
  from inst have res: "snd (conversationsApi_create (backend 200 [] (Inr (JStr ''c1''))) None)
     = Inr (JObj [(''id'', JStr ''c1''), (''title'', JStr (title_or_empty None))])"
    by (rule conjunct1)
  from inst same have eq: "conversationsApi_create (backend 200 [] (Inr (JStr ''c1''))) None
     = conversationsApi_create (create_only (JStr ''c1'')) None"
    by blast
  show ?thesis using same res eq by (simp add: title_or_empty_def)
qed

subsection \<open>C7: list operations on a payload that holds no list\<close>

text \<open>
  Claim C7 says that every list operation returns the empty sequence when the decoded
  payload is neither an array nor an object with an array under the conventional key.
  \<open>documentsApi.getAll\<close> does; \<open>conversationsApi.getAll\<close> and
  \<open>messagesApi.getByConversation\<close> return the payload itself.  Evaluated on the payload
  \<open>{detail: "none"}\<close> with status 200:
\<close>

theorem list_returns_payload_itself:
  "snd (documentsApi_getAll (backend 200 [] (Inr (JObj [(''detail'', JStr ''none'')])))) = Inr (JArr [])
   \<and> snd (conversationsApi_getAll (backend 200 [] (Inr (JObj [(''detail'', JStr ''none'')]))))
     = Inr (JObj [(''detail'', JStr ''none'')])
   \<and> snd (messagesApi_getByConversation (backend 200 [] (Inr (JObj [(''detail'', JStr ''none'')]))) (Some ''c1''))
     = Inr (JObj [(''detail'', JStr ''none'')])"
  by (simp add: documentsApi_getAll_def conversationsApi_getAll_def messagesApi_getByConversation_def
      fetch_json_backend Let_def read_prop_def or_else_def no_id_def)

subsection \<open>C8: what a failed operation reports\<close>

text \<open>
  Claim C8 says that every operation fails, on a non-success status, with an error that
  carries the status code and the body text.  \<open>documentsApi.getAll\<close> does; the other
  operations throw a fixed message.  Evaluated on status 500 with body \<open>overloaded\<close>:
\<close>

theorem failure_without_status_and_body:
  "snd (documentsApi_getAll (backend 500 ''overloaded'' p))
     = Inl (Error ''Failed to fetch documents: 500 overloaded'')
   \<and> snd (documentsApi_upload (backend 500 ''overloaded'' p) file) = Inl (Error ''Failed to upload document'')
   \<and> snd (documentsApi_delete (backend 500 ''overloaded'' p) ident) = Inl (Error ''Failed to delete document'')
   \<and> snd (queriesApi_create (backend 500 ''overloaded'' p) q) = Inl (Error ''Failed to create query'')
   \<and> snd (conversationsApi_create (backend 500 ''overloaded'' p) title) = Inl (Error ''Failed to create conversation'')
   \<and> snd (conversationsApi_getAll (backend 500 ''overloaded'' p)) = Inl (Error ''Failed to fetch conversations'')
   \<and> snd (messagesApi_getByConversation (backend 500 ''overloaded'' p) (Some ''c1'')) = Inl (Error ''Failed to fetch messages'')
   \<and> snd (messagesApi_create (backend 500 ''overloaded'' p) (Some ''c1'') ''user'' ''hi'') = Inl (Error ''Failed to create message'')"
proof -
  have "show_nat 500 = ''500''" by code_simp
  then show ?thesis
    by (simp add: documentsApi_getAll_def documentsApi_upload_def documentsApi_delete_def
        queriesApi_create_def conversationsApi_create_def conversationsApi_getAll_def
        messagesApi_getByConversation_def messagesApi_create_def
        fetch_json_backend Let_def no_id_def backend_def res_ok_def)
qed

subsection \<open>C2: cancelling a stream\<close>

text \<open>
  Claim C2 says that a stream cancelled through its own \<open>stop()\<close> emits no event.  The
  consumer's \<open>catch\<close> does not look at the error it caught: the abort error that \<open>stop()\<close>
  makes the pending read reject with is reported like any other.  Here \<open>stop()\<close> is
  called after the first read, which held one \<open>partial\<close> frame.
\<close>

theorem stop_emits_error_event:
  "generateAgentResponseStream frame_parser
     (streaming_backend
        (stop_during_read AbortError 1 [Chunk (''data: '' @ partial_frame @ [CHR 0x0A, CHR 0x0A])]))
     ''hi'' (Some (JStr ''c1'')) True
   = [partial_event ''x'', error_event ''The user aborted a request.'']"
  by code_simp

text \<open>
  Claim C2 as amended: a failure of the transport, the one caused by the handle's own
  \<open>stop()\<close> included, adds exactly one synthetic \<open>error\<close> event, after the events of the
  reads that had settled, and the event carries the failure's message, or \<open>String(err)\<close>
  when the message is empty.
\<close>

theorem transport_failure_one_error_event:
  "generateAgentResponseStream P (streaming_backend (stop_during_read err n (map Chunk cs))) u c True
     = generateAgentResponseStream P (streaming_backend (map Chunk (take n cs))) u c True
       @ [catch_event err]
   \<and> generateAgentResponseStream P (rejecting err) u c True = [catch_event err]
   \<and> ev_type (catch_event err) = ''error''
   \<and> ev_error (catch_event err)
       = Some (if err_message err \<noteq> [] then err_message err else String_err err)"
proof -
  have "read_loop P [] (stop_during_read err n (map Chunk cs))
        = read_loop P [] (map Chunk (take n cs)) @ [catch_event err]"
    using read_loop_failed [of P "[]" "take n cs" err "[]"]
    by (simp add: stop_during_read_def take_map)
  then have stopped: "generateAgentResponseStream P (streaming_backend (stop_during_read err n (map Chunk cs))) u c True
     = generateAgentResponseStream P (streaming_backend (map Chunk (take n cs))) u c True
       @ [catch_event err]"
    by (simp add: stream_of_reads)
  have rejected: "generateAgentResponseStream P (rejecting err) u c True = [catch_event err]"
    by (simp add: generateAgentResponseStream_def rejecting_def)
  have carried: "ev_type (catch_event err) = ''error''
     \<and> ev_error (catch_event err)
       = Some (if err_message err \<noteq> [] then err_message err else String_err err)"
    by (simp add: catch_event_def error_event_def bare_event_def)
  from stopped rejected carried show ?thesis by blast
qed

subsection \<open>C3: events after a terminal event\<close>

text \<open>
  Claim C3 says that nothing is emitted after a terminal event.  The loop keeps no record
  of what it emitted: a \<open>partial\<close> frame that follows a \<open>final\<close> frame in the bytes is
  decoded and emitted after it.
\<close>

theorem frame_after_final_emitted:
  "generateAgentResponseStream frame_parser (streaming_backend final_then_partial)
     ''hi'' (Some (JStr ''c1'')) True
   = [bare_event ''final'', partial_event ''x'']
   \<and> terminal (bare_event ''final'')"
  by code_simp

text \<open>
  Claim C3 as amended: emission ends when the transport closes or fails, not at a
  terminal event.  Until then the consumer emits, in order, one event for every part of
  the text received that is followed by a blank-line boundary, is not blank and decodes,
  whatever was emitted before and however the text was cut into chunks.  When the
  transport closes nothing more is emitted; when it fails one synthetic \<open>error\<close> event is
  emitted and nothing after it.
\<close>

theorem emission_ends_with_transport:
  "generateAgentResponseStream P (streaming_backend (map Chunk cs)) u c True
     = List.map_filter (decode_part P) (butlast (split_nn (concat cs)))
   \<and> generateAgentResponseStream P (streaming_backend (map Chunk cs @ Done # rest)) u c True
     = List.map_filter (decode_part P) (butlast (split_nn (concat cs)))
   \<and> generateAgentResponseStream P (streaming_backend (map Chunk cs @ Failed err # rest)) u c True
     = List.map_filter (decode_part P) (butlast (split_nn (concat cs))) @ [catch_event err]"
proof -
  have "read_loop P [] (map Chunk cs)
        = List.map_filter (decode_part P) (butlast (split_nn ([] @ concat cs)))"
    by (rule read_loop_frames) simp
  then show ?thesis
    by (simp add: stream_of_reads read_loop_closed read_loop_failed)
qed


subsection \<open>C9: what a \<open>partial\<close> event changes\<close>

text \<open>
  Claim C9.  A \<open>partial\<close> event of a stream changes the message list only at the entries
  whose id is the stream's placeholder id: there its fragment is appended to the content
  and every other field stays.  The list keeps its length, its order of ids and its
  roles, and every entry with another id is the entry it was.
\<close>

theorem partial_touches_placeholder_only:
  assumes "h < length (streams st)" and "ev_type ev = ''partial''"
  shows "length (messages (deliver h ev st)) = length (messages st)
    \<and> map m_id (messages (deliver h ev st)) = map m_id (messages st)
    \<and> map m_role (messages (deliver h ev st)) = map m_role (messages st)
    \<and> (\<forall>i < length (messages st).
         (m_id (messages st ! i) \<noteq> sc_assistantId (streams st ! h)
            \<longrightarrow> messages (deliver h ev st) ! i = messages st ! i)
       \<and> (m_id (messages st ! i) = sc_assistantId (streams st ! h)
            \<longrightarrow> messages (deliver h ev st) ! i
                  = (messages st ! i)\<lparr>m_content := m_content (messages st ! i) @ ev_partial ev\<rparr>))"
  using assms
  by (simp add: deliver_partial on_partial_length on_partial_nth on_partial_ids on_partial_roles)

theorem partial_touches_placeholder_only_witness:
  "0 < length (streams one_turn)
   \<and> ev_type (partial_event ''Rev'') = ''partial''
   \<and> length (messages (deliver 0 (partial_event ''Rev'') one_turn)) = 2
   \<and> messages (deliver 0 (partial_event ''Rev'') one_turn) ! 0 = messages one_turn ! 0
   \<and> messages (deliver 0 (partial_event ''Rev'') one_turn) ! 1
       = (messages one_turn ! 1)\<lparr>m_content := ''Rev''\<rparr>"
proof -
  have h: "0 < length (streams one_turn)" by code_simp
  have p: "ev_type (partial_event ''Rev'') = ''partial''"
    by (simp add: partial_event_def bare_event_def)
  have n: "length (messages one_turn) = 2" by code_simp
  have user: "m_id (messages one_turn ! 0) \<noteq> sc_assistantId (streams one_turn ! 0)" by code_simp
  have asst: "m_id (messages one_turn ! 1) = sc_assistantId (streams one_turn ! 0)" by code_simp
  have empty: "m_content (messages one_turn ! 1) = []" by code_simp
  have frag: "ev_partial (partial_event ''Rev'') = ''Rev''"
    by (simp add: partial_event_def bare_event_def)
  note inst = partial_touches_placeholder_only [OF h p]
  from inst have len: "length (messages (deliver 0 (partial_event ''Rev'') one_turn)) = length (messages one_turn)"
    by (rule conjunct1)
  from inst have each: "\<forall>i < length (messages one_turn).
         (m_id (messages one_turn ! i) \<noteq> sc_assistantId (streams one_turn ! 0)
            \<longrightarrow> messages (deliver 0 (partial_event ''Rev'') one_turn) ! i = messages one_turn ! i)
       \<and> (m_id (messages one_turn ! i) = sc_assistantId (streams one_turn ! 0)
            \<longrightarrow> messages (deliver 0 (partial_event ''Rev'') one_turn) ! i
                  = (messages one_turn ! i)\<lparr>m_content := m_content (messages one_turn ! i) @ ev_partial (partial_event ''Rev'')\<rparr>)"
    by blast
  from each n user have a: "messages (deliver 0 (partial_event ''Rev'') one_turn) ! 0 = messages one_turn ! 0"
    by simp
  from each n asst have b: "messages (deliver 0 (partial_event ''Rev'') one_turn) ! 1
      = (messages one_turn ! 1)\<lparr>m_content := m_content (messages one_turn ! 1) @ ev_partial (partial_event ''Rev'')\<rparr>"
    by simp
  show ?thesis using h p len n a b empty frag by simp
qed

subsection \<open>C6: the content a turn ends with\<close>

text \<open>
  Claim C6 says that a \<open>final_output\<close> supplied by the \<open>final\<close> event becomes the final
  content.  The page writes \<open>result?.final_output || m.content\<close>: an empty \<open>final_output\<close>
  is falsy and leaves the accumulated content.  Here the stream of the first turn delivers
  one fragment and a \<open>final\<close> whose \<open>final_output\<close> is the empty string.
\<close>

theorem empty_final_output_keeps_partials:
  "ev_assistant_message final_with_empty_output = None
   \<and> final_output (selected_result final_with_empty_output) = Some []
   \<and> m_id (messages one_turn ! 1) = sc_assistantId (streams one_turn ! 0)
   \<and> m_content (messages (deliver_all 0 [partial_event ''Rev'', final_with_empty_output] one_turn) ! 1)
       = ''Rev''"
  by code_simp

text \<open>
  Claim C6 as amended.  Let the events of a stream be \<open>partial\<close> events with fragments
  \<open>f1, ..., fn\<close> followed by a \<open>final\<close> without \<open>assistant_message\<close>, and let the
  placeholder start empty.  The final content of the placeholder is the \<open>final_output\<close> of
  the selected result (\<open>event.result\<close>, else \<open>event.workflow_result\<close>, else the event
  itself) when that is a non-empty string, and the concatenation \<open>f1 + ... + fn\<close>
  otherwise: an absent or empty \<open>final_output\<close> leaves the accumulated content.
\<close>

theorem final_content_of_turn:
  assumes "h < length (streams st)" "i < length (messages st)"
    "m_id (messages st ! i) = sc_assistantId (streams st ! h)"
    "m_content (messages st ! i) = []"
    "\<forall>p \<in> set ps. ev_type p = ''partial''"
    "ev_type fin = ''final''" "ev_assistant_message fin = None"
  shows "m_content (messages (deliver_all h (ps @ [fin]) st) ! i)
     = (if truthy_str (final_output (selected_result fin))
        then the (final_output (selected_result fin))
        else concat (map ev_partial ps))"
proof -
  let ?st = "deliver_all h ps st"
  have a: "length (messages ?st) = length (messages st)"
    and b: "messages ?st ! i
        = (messages st ! i)\<lparr>m_content := m_content (messages st ! i) @ concat (map ev_partial ps)\<rparr>"
    using partials_content [OF assms(1,2,3,5)] by simp_all
  have h: "h < length (streams ?st)" using assms(1) by (simp add: deliver_all_streams)
  have "messages (deliver h fin ?st) = on_final (sc_assistantId (streams ?st ! h)) fin (messages ?st)"
    using h assms(6) by (rule deliver_final)
  then show ?thesis
    using assms a b by (simp add: deliver_all_append on_final_def deliver_all_streams)
qed

theorem final_content_of_turn_witness:
  "m_content (messages (deliver_all 0
       ([partial_event ''Rev'', partial_event ''enue is up''] @ [bare_event ''final'']) one_turn) ! 1)
     = ''Revenue is up''"
proof -
  have 1: "0 < length (streams one_turn)" by code_simp
  have 2: "1 < length (messages one_turn)" by code_simp
  have 3: "m_id (messages one_turn ! 1) = sc_assistantId (streams one_turn ! 0)" by code_simp
  have 4: "m_content (messages one_turn ! 1) = []" by code_simp
  have 5: "\<forall>p \<in> set [partial_event ''Rev'', partial_event ''enue is up'']. ev_type p = ''partial''"
    by (simp add: partial_event_def bare_event_def)
  have 6: "ev_type (bare_event ''final'') = ''final''" by (simp add: bare_event_def)
  have 7: "ev_assistant_message (bare_event ''final'') = None" by (simp add: bare_event_def)
  from final_content_of_turn [OF 1 2 3 4 5 6 7] show ?thesis
    by (simp add: selected_result_def bare_event_def truthy_str_def partial_event_def)
qed

subsection \<open>C4: a session start that fails\<close>

text \<open>
  Claim C4.  Let the prompt be non-blank, and let conversation creation fail: the backend
  answers \<open>POST /agents/conversations\<close> with a non-success status, or the conversation
  created has no identity the page can recover.  Then \<open>handleStartAnalysis\<close> reports the
  failure in one alert and leaves the page as it found it but for that alert and the flag
  \<open>hasStarted\<close>: the conversation (none, when the page had none), the message list (no
  placeholder is put in it), the stream reference and the streams opened are unchanged,
  and \<open>isLoading\<close> is false.
\<close>

theorem failed_start_leaves_no_conversation:
  assumes prompt: "trim (initialQuery st) \<noteq> []"
    and failed:
      "(\<exists>r. env_fetch e (POST ''/agents/conversations'' (title_body (Some (start_title (initialQuery st)))))
               = Resolved r
            \<and> \<not> res_ok r)
       \<or> (\<exists>conv. snd (conversationsApi_create (env_fetch e) (Some (start_title (initialQuery st)))) = Inr conv
            \<and> \<not> truthy_opt (conversation_id_of conv))"
  shows "\<exists>msg. msg \<noteq> [] \<and>
     handleStartAnalysis e st = st\<lparr>hasStarted := True, isLoading := False, alerts := alerts st @ [msg]\<rparr>"
proof -
  let ?st = "st\<lparr>isLoading := True, hasStarted := True\<rparr>"
  from failed show ?thesis
  proof
    assume "\<exists>r. env_fetch e (POST ''/agents/conversations'' (title_body (Some (start_title (initialQuery st)))))
                 = Resolved r \<and> \<not> res_ok r"
    then obtain r where r:
      "env_fetch e (POST ''/agents/conversations'' (title_body (Some (start_title (initialQuery st))))) = Resolved r"
      "\<not> res_ok r" by blast
    have "handleStartAnalysis_try e ?st = (?st, Some (Error ''Failed to create conversation''))"
      by (rule try_create_failed)
         (simp add: create_not_ok [of "env_fetch e" "Some (start_title (initialQuery st))" r, OF r])
    from start_thrown [OF prompt this] show ?thesis
      by (intro exI [of _ "''Failed to create conversation''"]) (simp add: Error_def)
  next
    assume "\<exists>conv. snd (conversationsApi_create (env_fetch e) (Some (start_title (initialQuery st)))) = Inr conv
            \<and> \<not> truthy_opt (conversation_id_of conv)"
    then obtain conv where c:
      "snd (conversationsApi_create (env_fetch e) (Some (start_title (initialQuery st)))) = Inr conv"
      "\<not> truthy_opt (conversation_id_of conv)" by blast
    have "handleStartAnalysis_try e ?st
        = (?st, Some (Error ''Conversation id missing from server response; see console for the raw server response.''))"
      by (rule try_no_identity [where conv = conv]) (simp_all add: c)
    from start_thrown [OF prompt this] show ?thesis
      by (intro exI [of _ "''Conversation id missing from server response; see console for the raw server response.''"])
         (simp add: Error_def)
  qed
qed

theorem failed_start_leaves_no_conversation_witness:
  "trim (initialQuery typed_prompt) \<noteq> []
   \<and> currentConversation (handleStartAnalysis (page_env refused 1) typed_prompt) = None
   \<and> messages (handleStartAnalysis (page_env refused 1) typed_prompt) = []
   \<and> \<not> isLoading (handleStartAnalysis (page_env refused 1) typed_prompt)
   \<and> streams (handleStartAnalysis (page_env refused 1) typed_prompt) = []
   \<and> length (alerts (handleStartAnalysis (page_env refused 1) typed_prompt)) = 1
   \<and> currentConversation (handleStartAnalysis (page_env created_without_id 1) typed_prompt) = None
   \<and> messages (handleStartAnalysis (page_env created_without_id 1) typed_prompt) = []
   \<and> \<not> isLoading (handleStartAnalysis (page_env created_without_id 1) typed_prompt)
   \<and> streams (handleStartAnalysis (page_env created_without_id 1) typed_prompt) = []
   \<and> length (alerts (handleStartAnalysis (page_env created_without_id 1) typed_prompt)) = 1"
proof -
  have prompt: "trim (initialQuery typed_prompt) \<noteq> []" by code_simp
  have status:
    "(\<exists>r. env_fetch (page_env refused 1)
             (POST ''/agents/conversations'' (title_body (Some (start_title (initialQuery typed_prompt)))))
               = Resolved r
            \<and> \<not> res_ok r)
       \<or> (\<exists>conv. snd (conversationsApi_create (env_fetch (page_env refused 1))
                          (Some (start_title (initialQuery typed_prompt)))) = Inr conv
            \<and> \<not> truthy_opt (conversation_id_of conv))"
    by (rule disjI1) (simp add: page_env_def refused_def backend_def res_ok_def)
  have created: "snd (conversationsApi_create (env_fetch (page_env created_without_id 1))
                      (Some (start_title (initialQuery typed_prompt))))
      = Inr (JObj [(''title'', JStr ''Revenue trend Q1'')])"
    by code_simp
  have unknown: "\<not> truthy_opt (conversation_id_of (JObj [(''title'', JStr ''Revenue trend Q1'')]))"
    by code_simp
  have identity:
    "(\<exists>r. env_fetch (page_env created_without_id 1)
             (POST ''/agents/conversations'' (title_body (Some (start_title (initialQuery typed_prompt)))))
               = Resolved r
            \<and> \<not> res_ok r)
       \<or> (\<exists>conv. snd (conversationsApi_create (env_fetch (page_env created_without_id 1))
                          (Some (start_title (initialQuery typed_prompt)))) = Inr conv
            \<and> \<not> truthy_opt (conversation_id_of conv))"
    using created unknown by blast
  from failed_start_leaves_no_conversation [OF prompt status] obtain msg where
    a: "handleStartAnalysis (page_env refused 1) typed_prompt
       = typed_prompt\<lparr>hasStarted := True, isLoading := False, alerts := alerts typed_prompt @ [msg]\<rparr>"
    by blast
  from failed_start_leaves_no_conversation [OF prompt identity] obtain msg' where
    b: "handleStartAnalysis (page_env created_without_id 1) typed_prompt
       = typed_prompt\<lparr>hasStarted := True, isLoading := False, alerts := alerts typed_prompt @ [msg']\<rparr>"
    by blast
  from a b prompt show ?thesis by (simp add: typed_prompt_def initial_state_def)
qed

subsection \<open>C1: events of a superseded stream\<close>

text \<open>
  Claim C1 says that the events a superseded stream delivers after the new placeholder is
  installed leave the message list as it is.  No callback asks which stream is current or
  whether its own was stopped.  Here the third turn is sent while the stream of the
  second is open: \<open>stop()\<close> is called on handle 1, the placeholder of the third turn is
  installed, and a \<open>partial\<close> that stream 1 delivers afterwards is written into the
  placeholder of the second turn; so is the \<open>error\<close> event the consumer makes of the
  abort itself.
\<close>

theorem late_partial_changes_messages:
  "streamControllerRef two_turns = Some 1
   \<and> stopped three_turns = [1]
   \<and> streamControllerRef three_turns = Some 2
   \<and> m_id (messages three_turns ! 5) = sc_assistantId (streams three_turns ! 2)
   \<and> m_content (messages three_turns ! 3) = []
   \<and> m_content (messages (deliver 1 (partial_event ''late'') three_turns) ! 3) = ''late''
   \<and> m_content (messages (deliver 1 (catch_event AbortError) three_turns) ! 3)
       = ''Error: The user aborted a request.''
   \<and> messages (deliver 1 (partial_event ''late'') three_turns) \<noteq> messages three_turns"
proof -
  have facts: "streamControllerRef two_turns = Some 1
   \<and> stopped three_turns = [1]
   \<and> streamControllerRef three_turns = Some 2
   \<and> m_id (messages three_turns ! 5) = sc_assistantId (streams three_turns ! 2)
   \<and> m_content (messages three_turns ! 3) = []
   \<and> m_content (messages (deliver 1 (partial_event ''late'') three_turns) ! 3) = ''late''
   \<and> m_content (messages (deliver 1 (catch_event AbortError) three_turns) ! 3)
       = ''Error: The user aborted a request.''"
    by code_simp
  then have "m_content (messages (deliver 1 (partial_event ''late'') three_turns) ! 3)
      \<noteq> m_content (messages three_turns ! 3)"
    by simp
  then have "messages (deliver 1 (partial_event ''late'') three_turns) \<noteq> messages three_turns"
    by auto
  with facts show ?thesis by blast
qed

text \<open>
  The ids of the placeholders are \<open>stream-\<close> followed by \<open>Date.now()\<close>.  When the third turn
  is sent within the millisecond of the second, both placeholders carry one id, and the
  events of the stopped stream are written into the new placeholder as well.
\<close>

lemma same_clock_new_placeholder_rewritten:
  "stopped same_clock_turns = [1]
   \<and> m_id (messages same_clock_turns ! 5) = sc_assistantId (streams same_clock_turns ! 1)
   \<and> m_content (messages same_clock_turns ! 5) = []
   \<and> m_content (messages (deliver 1 (partial_event ''late'') same_clock_turns) ! 5) = ''late''"
  by code_simp

text \<open>
  Claim C1 as amended.  When a turn is sent while the stream reference holds a handle,
  \<open>handleSendMessage\<close> first calls \<open>stop()\<close> on that handle and then opens the new stream,
  whose handle it records; the user's message and the new placeholder are the last two
  entries of the message list.  Events the stopped stream delivers afterwards are not
  ignored: each is applied to the entries that carry the stopped turn's placeholder id,
  a \<open>partial\<close> by appending its fragment, a \<open>final\<close> and an \<open>error\<close> as they are applied to
  an open stream's placeholder.  However many such events arrive, and in whatever later
  state, the message list keeps its length and every entry with another id is unchanged;
  the new placeholder is such an entry, and so stays as it was installed, whenever its id
  differs from the stopped turn's.
\<close>

theorem superseded_stream_events:
  assumes "currentConversation st = Some conv" "truthy conv"
    and "conversation_id_of conv = Some cid" "truthy cid"
    and "env_createMessage e cid User content = Inr userMessage"
    and "streamControllerRef st = Some h"
    and "h < length (streams st)"
  shows "calls (handleSendMessage content e st)
       = calls st @ [StopCalled h, StreamOpened (length (streams st))]
    \<and> stopped (handleSendMessage content e st) = stopped st @ [h]
    \<and> streamControllerRef (handleSendMessage content e st) = Some (length (streams st))
    \<and> length (streams (handleSendMessage content e st)) = Suc (length (streams st))
    \<and> streams (handleSendMessage content e st) ! h = streams st ! h
    \<and> messages (handleSendMessage content e st)
       = messages st @ [userMessage, placeholder (''stream-'' @ show_nat (env_now e)) cid (env_iso e)]
    \<and> (\<forall>ev. ev_type ev = ''partial'' \<longrightarrow>
          messages (deliver h ev (handleSendMessage content e st))
            = on_partial (sc_assistantId (streams st ! h)) ev (messages (handleSendMessage content e st)))
    \<and> (\<forall>ev. ev_type ev = ''final'' \<longrightarrow>
          messages (deliver h ev (handleSendMessage content e st))
            = on_final (sc_assistantId (streams st ! h)) ev (messages (handleSendMessage content e st)))
    \<and> (\<forall>ev. ev_type ev = ''error'' \<longrightarrow>
          messages (deliver h ev (handleSendMessage content e st))
            = on_error (sc_assistantId (streams st ! h)) ev (messages (handleSendMessage content e st)))
    \<and> (\<forall>evs. length (messages (deliver_all h evs (handleSendMessage content e st)))
               = length (messages (handleSendMessage content e st)))
    \<and> (\<forall>evs. \<forall>i < length (messages (handleSendMessage content e st)).
          m_id (messages (handleSendMessage content e st) ! i) \<noteq> sc_assistantId (streams st ! h)
            \<longrightarrow> messages (deliver_all h evs (handleSendMessage content e st)) ! i
                  = messages (handleSendMessage content e st) ! i)
    \<and> (''stream-'' @ show_nat (env_now e) \<noteq> sc_assistantId (streams st ! h)
          \<longrightarrow> (\<forall>evs. messages (deliver_all h evs (handleSendMessage content e st)) ! Suc (length (messages st))
                      = placeholder (''stream-'' @ show_nat (env_now e)) cid (env_iso e)))
    \<and> (\<forall>s evs. length (messages (deliver_all h evs s)) = length (messages s))
    \<and> (\<forall>s evs. \<forall>i < length (messages s).
          m_id (messages s ! i) \<noteq> sc_assistantId (streams s ! h)
            \<longrightarrow> messages (deliver_all h evs s) ! i = messages s ! i)"
proof -
  let ?st = "handleSendMessage content e st"
  let ?new = "placeholder (''stream-'' @ show_nat (env_now e)) cid (env_iso e)"
  let ?old = "sc_assistantId (streams st ! h)"
  note post = send_post_state [OF assms(1-6)]
  have c: "calls ?st = calls st @ [StopCalled h, StreamOpened (length (streams st))]"
    and s: "stopped ?st = stopped st @ [h]"
    and r: "streamControllerRef ?st = Some (length (streams st))"
    and n: "length (streams ?st) = Suc (length (streams st))"
    and m: "messages ?st = messages st @ [userMessage, ?new]"
    by (simp_all add: post)
  have k: "streams ?st ! h = streams st ! h"
    using assms(7) by (simp add: post nth_append)
  have h: "h < length (streams ?st)" using assms(7) n by simp
  have p: "\<forall>ev. ev_type ev = ''partial'' \<longrightarrow>
      messages (deliver h ev ?st) = on_partial ?old ev (messages ?st)"
    using h k by (simp add: deliver_partial)
  have f: "\<forall>ev. ev_type ev = ''final'' \<longrightarrow>
      messages (deliver h ev ?st) = on_final ?old ev (messages ?st)"
    using h k by (simp add: deliver_final)
  have x: "\<forall>ev. ev_type ev = ''error'' \<longrightarrow>
      messages (deliver h ev ?st) = on_error ?old ev (messages ?st)"
    using h k by (simp add: deliver_error)
  have o: "\<forall>evs. \<forall>i < length (messages ?st).
      m_id (messages ?st ! i) \<noteq> ?old \<longrightarrow> messages (deliver_all h evs ?st) ! i = messages ?st ! i"
    using k by (simp add: deliver_all_other)
  have pos: "Suc (length (messages st)) < length (messages ?st)"
    and at: "messages ?st ! Suc (length (messages st)) = ?new"
    by (simp_all add: m nth_append)
  have ident: "m_id ?new = ''stream-'' @ show_nat (env_now e)" by (simp add: placeholder_def)
  have w: "''stream-'' @ show_nat (env_now e) \<noteq> ?old
      \<longrightarrow> (\<forall>evs. messages (deliver_all h evs ?st) ! Suc (length (messages st)) = ?new)"
    using o pos at ident by metis
  have g: "\<forall>s evs. \<forall>i < length (messages s).
      m_id (messages s ! i) \<noteq> sc_assistantId (streams s ! h)
        \<longrightarrow> messages (deliver_all h evs s) ! i = messages s ! i"
    by (simp add: deliver_all_other)
  from c s r n k m p f x o w g show ?thesis
    by (simp add: deliver_all_length)
qed

theorem superseded_stream_events_witness:
  "streamControllerRef two_turns = Some 1
   \<and> calls three_turns = calls two_turns @ [StopCalled 1, StreamOpened 2]
   \<and> stopped three_turns = stopped two_turns @ [1]
   \<and> length (messages (deliver_all 1 [partial_event ''late'', catch_event AbortError] three_turns))
       = length (messages three_turns)
   \<and> messages (deliver_all 1 [partial_event ''late'', catch_event AbortError] three_turns) ! 5
       = placeholder ''stream-3'' (JStr ''c1'') ''2025-01-01T00:00:00.000Z''
   \<and> messages (deliver 1 (partial_event ''late'') three_turns)
       = on_partial ''stream-2'' (partial_event ''late'') (messages three_turns)"
proof -
  have 1: "currentConversation two_turns
      = Some (JObj [(''id'', JStr ''c1''), (''title'', JStr ''Revenue trend Q1'')])" by code_simp
  have 2: "truthy (JObj [(''id'', JStr ''c1''), (''title'', JStr ''Revenue trend Q1'')])" by simp
  have 3: "conversation_id_of (JObj [(''id'', JStr ''c1''), (''title'', JStr ''Revenue trend Q1'')])
      = Some (JStr ''c1'')" by code_simp
  have 4: "truthy (JStr ''c1'')" by simp
  have 5: "env_createMessage (page_env created_c1 3) (JStr ''c1'') User ''And Q3?''
      = Inr \<lparr>m_id = ''msg-'' @ show_nat 3, m_conversation_id = JStr ''c1'', m_role = User,
             m_content = ''And Q3?'', m_created_at = ''2025-01-01T00:00:00.000Z''\<rparr>"
    by (simp add: page_env_def)
  have 6: "streamControllerRef two_turns = Some 1" by code_simp
  have 7: "1 < length (streams two_turns)" by code_simp
  have now: "''stream-'' @ show_nat (env_now (page_env created_c1 3)) = ''stream-3''" by code_simp
  have iso: "env_iso (page_env created_c1 3) = ''2025-01-01T00:00:00.000Z''" by (simp add: page_env_def)
  have old: "sc_assistantId (streams two_turns ! 1) = ''stream-2''" by code_simp
  have len: "Suc (length (messages two_turns)) = 5" by code_simp
  have differ: "''stream-'' @ show_nat (env_now (page_env created_c1 3)) \<noteq> sc_assistantId (streams two_turns ! 1)"
    by code_simp
  have partial: "ev_type (partial_event ''late'') = ''partial''"
    by (simp add: partial_event_def bare_event_def)
  note inst = superseded_stream_events [OF 1 2 3 4 5 6 7, folded three_turns_def]
  from inst have a: "calls three_turns = calls two_turns @ [StopCalled 1, StreamOpened (length (streams two_turns))]"
    by (rule conjunct1)
  have two: "length (streams two_turns) = 2" by code_simp
  from inst have b: "stopped three_turns = stopped two_turns @ [1]" by blast
  from inst have c: "length (messages (deliver_all 1 [partial_event ''late'', catch_event AbortError] three_turns))
       = length (messages three_turns)" by blast
  from inst differ have "\<forall>evs. messages (deliver_all 1 evs three_turns) ! Suc (length (messages two_turns))
      = placeholder (''stream-'' @ show_nat (env_now (page_env created_c1 3))) (JStr ''c1'')
          (env_iso (page_env created_c1 3))"
    by blast
  then have d: "messages (deliver_all 1 [partial_event ''late'', catch_event AbortError] three_turns) ! 5
       = placeholder ''stream-3'' (JStr ''c1'') ''2025-01-01T00:00:00.000Z''"
    by (simp only: now iso len)
  from inst partial have "messages (deliver 1 (partial_event ''late'') three_turns)
       = on_partial (sc_assistantId (streams two_turns ! 1)) (partial_event ''late'') (messages three_turns)"
    by blast
  then have f: "messages (deliver 1 (partial_event ''late'') three_turns)
       = on_partial ''stream-2'' (partial_event ''late'') (messages three_turns)"
    by (simp only: old)
  from 6 a two b c d f show ?thesis by simp
qed

end
